theory Spec2Isabelle
  imports Main
begin

section \<open>Python values and strings\<close>

text \<open>
  The values that travel between the storage rows and the adapter classes of
  \<^verbatim>\<open>group.py\<close> and \<^verbatim>\<open>history.py\<close>: \<^verbatim>\<open>None\<close>, booleans, integers and strings.
\<close>

datatype pyval = PNone | PBool bool | PInt int | PStr string

text \<open>
  The two failure kinds of the storage collaborator, each carrying the message that
  \<^verbatim>\<open>e.args[1]\<close> reads; \<^verbatim>\<open>except DatabaseError\<close> catches both.
\<close>

datatype db_error = DatabaseError string | DuplicateError string

fun args1 :: "db_error \<Rightarrow> string" where
  "args1 (DatabaseError msg) = msg"
| "args1 (DuplicateError msg) = msg"

text \<open>
  Every exception the two modules raise or let through, as a value; \<open>Storage e\<close> is a
  storage exception that no handler of the module catches.
\<close>

datatype error =
    MessageError int string
  | MessageQueryError string
  | MessageNotFound
  | GroupError int string
  | GroupNotFound
  | GroupParticipantNotFound
  | GroupExistsError
  | UserAlreadyJoined
  | Storage db_error
  | ClusterError
  | TypeError
  | ValueError
  | AttributeError
  | ValidationError

text \<open>\<^verbatim>\<open>str(n)\<close> for an integer: decimal digits, a minus sign when negative.\<close>

fun digits :: "nat \<Rightarrow> string" where
  "digits n =
     (if n < 10 then [''0123456789'' ! n]
      else digits (n div 10) @ [''0123456789'' ! (n mod 10)])"

declare digits.simps [simp del]

definition str_int :: "int \<Rightarrow> string" where
  "str_int i = (if i < 0 then CHR ''-'' # digits (nat (- i)) else digits (nat i))"

text \<open>\<^verbatim>\<open>str(v)\<close>, \<^verbatim>\<open>bool(v)\<close> and \<^verbatim>\<open>int(v)\<close> of Python 2 on these values.\<close>

fun py_str :: "pyval \<Rightarrow> string" where
  "py_str PNone = ''None''"
| "py_str (PBool b) = (if b then ''True'' else ''False'')"
| "py_str (PInt i) = str_int i"
| "py_str (PStr s) = s"

fun py_bool :: "pyval \<Rightarrow> bool" where
  "py_bool PNone = False"
| "py_bool (PBool b) = b"
| "py_bool (PInt i) = (i \<noteq> 0)"
| "py_bool (PStr s) = (s \<noteq> [])"

definition digit_val :: "char \<Rightarrow> nat option" where
  "digit_val c =
     (let n = (of_char c :: nat) in if 48 \<le> n \<and> n \<le> 57 then Some (n - 48) else None)"

fun parse_digits :: "nat \<Rightarrow> string \<Rightarrow> nat option" where
  "parse_digits acc [] = Some acc"
| "parse_digits acc (c # cs) =
     (case digit_val c of None \<Rightarrow> None | Some v \<Rightarrow> parse_digits (10 * acc + v) cs)"

text \<open>
  \<^verbatim>\<open>int(s)\<close> on a string: blanks around the number are dropped, a sign may lead, and
  the rest must be decimal digits, at least one.
\<close>

definition is_space :: "char \<Rightarrow> bool" where
  "is_space c = (c \<in> set [CHR 0x20, CHR 0x09, CHR 0x0A, CHR 0x0B, CHR 0x0C, CHR 0x0D])"

definition strip :: "string \<Rightarrow> string" where
  "strip s = rev (dropWhile is_space (rev (dropWhile is_space s)))"

definition parse_int :: "string \<Rightarrow> int option" where
  "parse_int s =
     (case strip s of
        [] \<Rightarrow> None
      | c # cs \<Rightarrow>
          if c = CHR ''-'' then
            (if cs = [] then None else map_option (\<lambda>n. - int n) (parse_digits 0 cs))
          else if c = CHR ''+'' then
            (if cs = [] then None else map_option int (parse_digits 0 cs))
          else map_option int (parse_digits 0 (c # cs)))"

fun py_int :: "pyval \<Rightarrow> error + int" where
  "py_int PNone = Inl TypeError"
| "py_int (PBool b) = Inr (if b then 1 else 0)"
| "py_int (PInt i) = Inr i"
| "py_int (PStr s) = (case parse_int s of None \<Rightarrow> Inl ValueError | Some i \<Rightarrow> Inr i)"

text \<open>
  The decorator \<^verbatim>\<open>@validate(name="int")\<close> of the validation collaborator: the argument is
  coerced with \<^verbatim>\<open>int\<close>, and \<^verbatim>\<open>ValidationError\<close> is raised, before the function runs, when
  that fails.
\<close>

definition validate_int :: "pyval \<Rightarrow> error + int" where
  "validate_int v = (case py_int v of Inl e \<Rightarrow> Inl ValidationError | Inr i \<Rightarrow> Inr i)"

text \<open>\<^verbatim>\<open>s.lower()\<close> and \<^verbatim>\<open>s.split(",")\<close> on byte strings.\<close>

definition lower_char :: "char \<Rightarrow> char" where
  "lower_char c =
     (case map_of (zip ''ABCDEFGHIJKLMNOPQRSTUVWXYZ'' ''abcdefghijklmnopqrstuvwxyz'') c of
        None \<Rightarrow> c
      | Some l \<Rightarrow> l)"

definition lower :: "string \<Rightarrow> string" where
  "lower s = map lower_char s"

fun split :: "char \<Rightarrow> string \<Rightarrow> string list" where
  "split sep [] = [[]]"
| "split sep (c # cs) =
     (if c = sep then [] # split sep cs
      else (case split sep cs of
              [] \<Rightarrow> [[c]]
            | w # ws \<Rightarrow> (c # w) # ws))"

text \<open>
  A storage row as the adapters receive it: a dictionary from column names to
  values. \<^verbatim>\<open>data.get(k)\<close> is \<^verbatim>\<open>None\<close> for a missing key, \<^verbatim>\<open>data.get(k, d)\<close> is \<open>d\<close>.
\<close>

type_synonym row = "(string \<times> pyval) list"

definition get :: "row \<Rightarrow> string \<Rightarrow> pyval" where
  "get data k = (case map_of data k of None \<Rightarrow> PNone | Some v \<Rightarrow> v)"

definition get_default :: "row \<Rightarrow> string \<Rightarrow> pyval \<Rightarrow> pyval" where
  "get_default data k dflt = (case map_of data k of None \<Rightarrow> dflt | Some v \<Rightarrow> v)"

section \<open>The adapters of group.py\<close>

record GroupAdapter =
  group_id :: pyval
  group_class :: string
  key :: string
  clustered :: bool
  cluster_size :: pyval

definition GroupAdapter :: "row \<Rightarrow> GroupAdapter" where
  "GroupAdapter data =
     \<lparr> GroupAdapter.group_id = get data ''group_id'',
       GroupAdapter.group_class = py_str (get data ''group_class''),
       key = py_str (get data ''group_key''),
       clustered = py_bool (get_default data ''group_clustered'' (PInt 1)),
       cluster_size = get_default data ''group_cluster_size'' (PInt 1000) \<rparr>"

record GroupParticipationAdapter =
  participation_id :: string
  group_id :: string
  group_class :: string
  group_key :: string
  cluster_id :: int
  account :: pyval
  role :: pyval

text \<open>
  \<^verbatim>\<open>int(data.get("cluster_id"))\<close> raises on \<^verbatim>\<open>None\<close> and on a string that is not a
  number, so the constructor is partial.
\<close>

definition GroupParticipationAdapter :: "row \<Rightarrow> error + GroupParticipationAdapter" where
  "GroupParticipationAdapter data =
     (case py_int (get data ''cluster_id'') of
        Inl e \<Rightarrow> Inl e
      | Inr cid \<Rightarrow>
          Inr \<lparr> participation_id = py_str (get data ''participation_id''),
                group_id = py_str (get data ''group_id''),
                group_class = py_str (get data ''group_class''),
                group_key = py_str (get data ''group_key''),
                cluster_id = cid,
                account = get data ''participation_account'',
                role = get data ''participation_role'' \<rparr>)"

definition calculate_recipient :: "GroupParticipationAdapter \<Rightarrow> string" where
  "calculate_recipient p =
     (if cluster_id p \<noteq> 0 then group_key p @ ''-'' @ str_int (cluster_id p)
      else group_key p)"

section \<open>The storage\<close>

text \<open>
  The three tables the two modules read and write, with the columns their SQL names.
  Columns are typed, as in the database; parameters arrive as Python values.
\<close>

text \<open>
  Modelled from the spec: the table declarations are not among the sources. The spec
  gives a group id as unique within its gamespace and a message id as assigned by the
  storage. A table is the list of its rows, in storage order, with no constraint of its
  own; a statement that needs the uniqueness of an id assumes it.
\<close>

record group_row =
  g_gamespace_id :: int
  g_group_id :: int
  g_group_class :: string
  g_group_key :: string
  g_group_clustered :: int
  g_group_cluster_size :: int

record participant_row =
  p_gamespace_id :: int
  p_participation_id :: int
  p_group_id :: int
  p_group_class :: string
  p_group_key :: string
  p_participation_account :: int
  p_participation_role :: string
  p_cluster_id :: int

record message_row =
  m_gamespace_id :: int
  m_message_id :: int
  m_message_uuid :: string
  m_message_recipient_class :: string
  m_message_sender :: int
  m_message_recipient :: string
  m_message_time :: int
  m_message_type :: string
  m_message_payload :: string
  m_message_delivered :: int
  m_message_flags :: string

text \<open>The dictionary a \<^verbatim>\<open>SELECT *\<close> hands to the adapters, one entry per column.\<close>

definition group_dict :: "group_row \<Rightarrow> row" where
  "group_dict g =
     [(''gamespace_id'', PInt (g_gamespace_id g)),
      (''group_id'', PInt (g_group_id g)),
      (''group_class'', PStr (g_group_class g)),
      (''group_key'', PStr (g_group_key g)),
      (''group_clustered'', PInt (g_group_clustered g)),
      (''group_cluster_size'', PInt (g_group_cluster_size g))]"

definition participant_dict :: "participant_row \<Rightarrow> row" where
  "participant_dict p =
     [(''gamespace_id'', PInt (p_gamespace_id p)),
      (''participation_id'', PInt (p_participation_id p)),
      (''group_id'', PInt (p_group_id p)),
      (''group_class'', PStr (p_group_class p)),
      (''group_key'', PStr (p_group_key p)),
      (''participation_account'', PInt (p_participation_account p)),
      (''participation_role'', PStr (p_participation_role p)),
      (''cluster_id'', PInt (p_cluster_id p))]"

definition message_dict :: "message_row \<Rightarrow> row" where
  "message_dict m =
     [(''gamespace_id'', PInt (m_gamespace_id m)),
      (''message_id'', PInt (m_message_id m)),
      (''message_uuid'', PStr (m_message_uuid m)),
      (''message_recipient_class'', PStr (m_message_recipient_class m)),
      (''message_sender'', PInt (m_message_sender m)),
      (''message_recipient'', PStr (m_message_recipient m)),
      (''message_time'', PInt (m_message_time m)),
      (''message_type'', PStr (m_message_type m)),
      (''message_payload'', PStr (m_message_payload m)),
      (''message_delivered'', PInt (m_message_delivered m)),
      (''message_flags'', PStr (m_message_flags m))]"

text \<open>
  The columns of a participation that a \<^verbatim>\<open>LEFT JOIN\<close> leaves empty when no row joins.
\<close>

definition participant_nulls :: row where
  "participant_nulls =
     [(''gamespace_id'', PNone), (''participation_id'', PNone), (''group_id'', PNone),
      (''group_class'', PNone), (''group_key'', PNone), (''participation_account'', PNone),
      (''participation_role'', PNone), (''cluster_id'', PNone)]"

text \<open>
  The database: the tables, the counter of generated participation ids, the script of
  outcomes of the storage calls to come (\<open>None\<close>: the call succeeds; \<open>Some msg\<close>: it
  raises \<^verbatim>\<open>DatabaseError\<close> with that message; past the end of the script every call
  succeeds), the number of storage calls issued so far, and the message of the error the
  server raises for a statement it cannot parse, whatever the server words it.
\<close>

record database =
  groups :: "group_row list"
  group_participants :: "participant_row list"
  messages :: "message_row list"
  participation_auto_increment :: int
  faults :: "string option list"
  issued :: nat
  rejection :: string

definition storage_call :: "database \<Rightarrow> string option \<times> database" where
  "storage_call d =
     (case faults d of
        [] \<Rightarrow> (None, d\<lparr>issued := issued d + 1\<rparr>)
      | f # fs \<Rightarrow> (f, d\<lparr>faults := fs, issued := issued d + 1\<rparr>))"

text \<open>
  The calls of the storage interface: \<^verbatim>\<open>query\<close> returns the selected rows, \<^verbatim>\<open>get\<close> the
  first of them or \<^verbatim>\<open>None\<close>, \<^verbatim>\<open>execute\<close> runs a statement and returns the number of
  rows it affected, \<^verbatim>\<open>acquire\<close> hands out a connection and \<^verbatim>\<open>commit\<close> ends its
  transaction. A selection is \<open>None\<close> when the server rejects the statement.
\<close>

definition db_query ::
  "(database \<Rightarrow> 'a list option) \<Rightarrow> database \<Rightarrow> (db_error + 'a list) \<times> database" where
  "db_query select d =
     (case storage_call d of
        (Some msg, d') \<Rightarrow> (Inl (DatabaseError msg), d')
      | (None, d') \<Rightarrow>
          (case select d' of
             None \<Rightarrow> (Inl (DatabaseError (rejection d')), d')
           | Some rows \<Rightarrow> (Inr rows, d')))"

definition db_get ::
  "(database \<Rightarrow> 'a list option) \<Rightarrow> database \<Rightarrow> (db_error + 'a option) \<times> database" where
  "db_get select d =
     (case db_query select d of
        (Inl e, d') \<Rightarrow> (Inl e, d')
      | (Inr [], d') \<Rightarrow> (Inr None, d')
      | (Inr (r # _), d') \<Rightarrow> (Inr (Some r), d'))"

definition db_execute ::
  "(database \<Rightarrow> db_error + database \<times> int) \<Rightarrow> database \<Rightarrow> (db_error + int) \<times> database" where
  "db_execute statement d =
     (case storage_call d of
        (Some msg, d') \<Rightarrow> (Inl (DatabaseError msg), d')
      | (None, d') \<Rightarrow>
          (case statement d' of
             Inl e \<Rightarrow> (Inl e, d')
           | Inr (d'', n) \<Rightarrow> (Inr n, d'')))"

definition db_acquire :: "database \<Rightarrow> (db_error + unit) \<times> database" where
  "db_acquire d =
     (case storage_call d of
        (Some msg, d') \<Rightarrow> (Inl (DatabaseError msg), d')
      | (None, d') \<Rightarrow> (Inr (), d'))"

definition db_commit :: "database \<Rightarrow> (db_error + unit) \<times> database" where
  "db_commit d =
     (case storage_call d of
        (Some msg, d') \<Rightarrow> (Inl (DatabaseError msg), d')
      | (None, d') \<Rightarrow> (Inr (), d'))"

text \<open>
  A connection acquired with \<^verbatim>\<open>auto_commit=False\<close> that is released without a commit
  rolls its transaction back: the tables are those of \<open>d0\<close>, the state before it.
\<close>

definition rollback :: "database \<Rightarrow> database \<Rightarrow> database" where
  "rollback d0 d =
     d\<lparr>groups := groups d0, group_participants := group_participants d0,
       messages := messages d0,
       participation_auto_increment := participation_auto_increment d0\<rparr>"

subsection \<open>What the SQL of the statements computes\<close>

text \<open>
  An integer column against a parameter. \<^verbatim>\<open>NULL\<close> equals nothing. A string is compared
  as the number it spells: the server reads, past leading blanks, a sign, digits, a
  fraction and an exponent, as far as they go, and takes 0 when no digit is there.
  \<open>sql_number\<close> gives that number as a mantissa and a power of ten.
\<close>

definition is_digit :: "char \<Rightarrow> bool" where
  "is_digit c = (digit_val c \<noteq> None)"

definition number_of :: "string \<Rightarrow> nat" where
  "number_of ds = (case parse_digits 0 ds of None \<Rightarrow> 0 | Some n \<Rightarrow> n)"

definition read_sign :: "string \<Rightarrow> bool \<times> string" where
  "read_sign s =
     (case s of
        [] \<Rightarrow> (False, [])
      | c # cs \<Rightarrow>
          if c = CHR ''-'' then (True, cs)
          else if c = CHR ''+'' then (False, cs)
          else (False, c # cs))"

definition read_fraction :: "string \<Rightarrow> string \<times> string" where
  "read_fraction s =
     (case s of
        [] \<Rightarrow> ([], [])
      | c # cs \<Rightarrow>
          if c = CHR ''.'' then (takeWhile is_digit cs, dropWhile is_digit cs)
          else ([], c # cs))"

definition read_exponent :: "string \<Rightarrow> int" where
  "read_exponent s =
     (case s of
        [] \<Rightarrow> 0
      | c # cs \<Rightarrow>
          if c = CHR ''e'' \<or> c = CHR ''E'' then
            (case read_sign cs of
               (neg, ds) \<Rightarrow>
                 if takeWhile is_digit ds = [] then 0
                 else if neg then - int (number_of (takeWhile is_digit ds))
                 else int (number_of (takeWhile is_digit ds)))
          else 0)"

definition sql_number :: "string \<Rightarrow> int \<times> int" where
  "sql_number s =
     (case read_sign (dropWhile is_space s) of
        (neg, s1) \<Rightarrow>
          (case read_fraction (dropWhile is_digit s1) of
             (fp, s2) \<Rightarrow>
               if takeWhile is_digit s1 = [] \<and> fp = [] then (0, 0)
               else
                 ((if neg then - int (number_of (takeWhile is_digit s1 @ fp))
                   else int (number_of (takeWhile is_digit s1 @ fp))),
                  read_exponent s2 - int (length fp))))"

fun sql_eq_int :: "int \<Rightarrow> pyval \<Rightarrow> bool" where
  "sql_eq_int c PNone = False"
| "sql_eq_int c (PBool b) = (c = (if b then 1 else 0))"
| "sql_eq_int c (PInt i) = (c = i)"
| "sql_eq_int c (PStr s) =
     (case sql_number s of
        (m, e) \<Rightarrow> if 0 \<le> e then c = m * 10 ^ nat e else c * 10 ^ nat (- e) = m)"

definition sql_in_int :: "int \<Rightarrow> pyval list \<Rightarrow> bool" where
  "sql_in_int c vs = list_ex (sql_eq_int c) vs"

text \<open>
  \<^verbatim>\<open>subject LIKE pattern\<close>: \<^verbatim>\<open>%\<close> matches any run of characters, \<^verbatim>\<open>_\<close> any one
  character, a backslash takes the next character literally.
\<close>

fun sql_like :: "string \<Rightarrow> string \<Rightarrow> bool" where
  "sql_like [] s = (s = [])"
| "sql_like (p # ps) [] = (p = CHR ''%'' \<and> sql_like ps [])"
| "sql_like (p # ps) (c # cs) =
     (if p = CHR ''%'' then sql_like ps (c # cs) \<or> sql_like (p # ps) cs
      else if p = CHR ''_'' then sql_like ps cs
      else if p = CHR 0x5C \<and> ps \<noteq> [] then hd ps = c \<and> sql_like (tl ps) cs
      else p = c \<and> sql_like ps cs)"

text \<open>
  \<^verbatim>\<open>LIMIT offset, limit\<close>: the server rejects a negative number. \<^verbatim>\<open>ORDER BY\<close> is the
  stable sort of the rows in table order (SQL itself leaves the order of ties open).
\<close>

definition sql_limit :: "int \<Rightarrow> int \<Rightarrow> 'a list \<Rightarrow> 'a list option" where
  "sql_limit off lim rows =
     (if off < 0 \<or> lim < 0 then None else Some (take (nat lim) (drop (nat off) rows)))"

definition order_by_message_time_desc :: "message_row list \<Rightarrow> message_row list" where
  "order_by_message_time_desc rows = sort_key (\<lambda>m. - m_message_time m) rows"

definition order_by_message_id_desc :: "message_row list \<Rightarrow> message_row list" where
  "order_by_message_id_desc rows = sort_key (\<lambda>m. - m_message_id m) rows"

section \<open>history.py\<close>

text \<open>
  The functions keep the names of the source. A parameter whose name is also an
  attribute of an adapter is abbreviated (\<open>rcpt\<close> for \<^verbatim>\<open>recipient\<close>, \<open>lim\<close> and \<open>off\<close> for
  \<^verbatim>\<open>limit\<close> and \<^verbatim>\<open>offset\<close>, \<open>grp\<close> for \<^verbatim>\<open>group\<close>), since the attribute is a constant here. The \<^verbatim>\<open>validate\<close>
  decorators are the types of the parameters; where the module itself hands a raw
  attribute to a decorated function (\<^verbatim>\<open>leave_group\<close> to \<^verbatim>\<open>find_group_participant\<close>), the
  decorator's coercion is part of the function.
\<close>

text \<open>
  Modelled from the spec: the package's \<^verbatim>\<open>__init__\<close> module, which declares
  \<^verbatim>\<open>MessageError\<close> (raised here with a code and a message), \<^verbatim>\<open>DeliveryFlags\<close>, its flag
  \<^verbatim>\<open>REMOVE_DELIVERED\<close> and the recipient class \<^verbatim>\<open>CLASS_USER\<close>, is not among the sources. The spec describes the flags as a set of delivery modifiers
  parsed from a comma-joined lowercase string, one of them "remove-on-delivery", and a
  direct recipient as a user-class recipient. \<open>DeliveryFlags\<close> keeps the parsed names,
  \<open>flags_contains\<close> is Python's \<^verbatim>\<open>in\<close> on them. No proof depends on the two names chosen.
\<close>

type_synonym DeliveryFlags = "string list"

definition flags_contains :: "string \<Rightarrow> DeliveryFlags \<Rightarrow> bool" where
  "flags_contains f fl = (f \<in> set fl)"

definition REMOVE_DELIVERED :: string where
  "REMOVE_DELIVERED = ''remove_delivered''"

definition CLASS_USER :: string where
  "CLASS_USER = ''user''"

record MessageAdapter =
  message_id :: pyval
  message_uuid :: pyval
  recipient_class :: string
  sender :: string
  recipient :: string
  time :: pyval
  message_type :: pyval
  payload :: pyval
  delivered :: pyval
  flags :: DeliveryFlags

text \<open>
  \<^verbatim>\<open>data.get("message_flags", "").lower()\<close> raises on a value that is not a string. The
  payload keeps the stored text: decoding it is the JSON library's work.
\<close>

definition MessageAdapter :: "row \<Rightarrow> error + MessageAdapter" where
  "MessageAdapter data =
     (case get_default data ''message_flags'' (PStr []) of
        PStr s \<Rightarrow>
          Inr \<lparr> message_id = get data ''message_id'',
                message_uuid = get data ''message_uuid'',
                recipient_class = py_str (get data ''message_recipient_class''),
                sender = py_str (get data ''message_sender''),
                recipient = py_str (get data ''message_recipient''),
                time = get data ''message_time'',
                message_type = get data ''message_type'',
                payload = get data ''message_payload'',
                delivered = get data ''message_delivered'',
                flags = split CHR '','' (lower s) \<rparr>
      | _ \<Rightarrow> Inl AttributeError)"

text \<open>\<^verbatim>\<open>map(Adapter, rows)\<close>: the first constructor that raises ends the whole call.\<close>

fun map_adapter :: "('a \<Rightarrow> error + 'b) \<Rightarrow> 'a list \<Rightarrow> error + 'b list" where
  "map_adapter f [] = Inr []"
| "map_adapter f (x # xs) =
     (case f x of
        Inl e \<Rightarrow> Inl e
      | Inr y \<Rightarrow> (case map_adapter f xs of Inl e \<Rightarrow> Inl e | Inr ys \<Rightarrow> Inr (y # ys)))"

subsection \<open>MessagesQuery\<close>

record MessagesQuery =
  gamespace_id :: int
  message_sender :: pyval
  message_recipient_class :: pyval
  message_recipient :: pyval
  message_type :: pyval
  message_delivered :: pyval
  offset :: int
  limit :: int


text \<open>\<^verbatim>\<open>__values__\<close>: the conjunction of the conditions it collects, as a test of a row.\<close>

definition MessagesQuery_values :: "MessagesQuery \<Rightarrow> message_row \<Rightarrow> bool" where
  "MessagesQuery_values q m =
     (sql_eq_int (m_gamespace_id m) (PStr (str_int (gamespace_id q)))
      \<and> (if py_bool (message_sender q)
          then sql_eq_int (m_message_sender m) (PStr (py_str (message_sender q))) else True)
      \<and> (if py_bool (message_recipient_class q)
          then m_message_recipient_class m = py_str (message_recipient_class q) else True)
      \<and> (if py_bool (message_recipient q)
          then sql_like (py_str (message_recipient q)) (m_message_recipient m) else True)
      \<and> (if py_bool (MessagesQuery.message_type q)
          then m_message_type m = py_str (MessagesQuery.message_type q) else True)
      \<and> (if message_delivered q \<noteq> PNone
          then sql_eq_int (m_message_delivered m)
                 (PStr (str_int (if py_bool (message_delivered q) then 1 else 0)))
          else True))"


text \<open>
  The statement \<^verbatim>\<open>query\<close> composes: the rows that pass the conditions, latest first,
  with a \<^verbatim>\<open>LIMIT\<close> clause only when \<^verbatim>\<open>self.limit\<close> is truthy.
\<close>

definition MessagesQuery_select :: "MessagesQuery \<Rightarrow> database \<Rightarrow> message_row list option" where
  "MessagesQuery_select q db =
     (let rows = order_by_message_time_desc (filter (MessagesQuery_values q) (messages db))
      in if limit q \<noteq> 0 then sql_limit (offset q) (limit q) rows else Some rows)"



subsection \<open>MessagesHistoryModel\<close>

definition list_incoming_messages ::
  "int \<Rightarrow> string \<Rightarrow> string \<Rightarrow> int \<Rightarrow> database \<Rightarrow> (error + MessageAdapter list) \<times> database" where
  "list_incoming_messages gamespace rcpt_class rcpt lim d =
     (case db_query
             (\<lambda>db. sql_limit 0 lim
                (order_by_message_time_desc
                   (filter (\<lambda>m. m_message_recipient_class m = rcpt_class
                                \<and> m_message_recipient m = rcpt
                                \<and> m_gamespace_id m = gamespace)
                      (messages db)))) d of
        (Inl e, d') \<Rightarrow>
          (Inl (MessageError 500 (''Failed to list incoming messages: '' @ args1 e)), d')
      | (Inr rows, d') \<Rightarrow> (map_adapter MessageAdapter (map message_dict rows), d'))"

text \<open>
  The three branches of the \<^verbatim>\<open>UNION DISTINCT\<close> of \<^verbatim>\<open>list_messages_account\<close>: the messages
  whose class and recipient are the class and key of a group joined to a participation
  of the account, the messages addressed to the account as a user, the messages it sent.
\<close>

definition account_group_keys :: "int \<Rightarrow> database \<Rightarrow> message_row \<Rightarrow> (string \<times> string) list" where
  "account_group_keys account_id db m =
     [(g_group_class g, g_group_key g).
        g \<leftarrow> groups db, p \<leftarrow> group_participants db,
        g_group_class g = m_message_recipient_class m
        \<and> g_group_key g = m_message_recipient m
        \<and> g_group_id g = p_group_id p
        \<and> sql_eq_int (p_participation_account p) (PStr (str_int account_id))]"

definition select_group_messages :: "int \<Rightarrow> int \<Rightarrow> database \<Rightarrow> message_row list" where
  "select_group_messages gamespace account_id db =
     filter (\<lambda>m. m_gamespace_id m = gamespace
                \<and> (m_message_recipient_class m, m_message_recipient m)
                    \<in> set (account_group_keys account_id db m))
       (messages db)"

definition select_user_messages :: "int \<Rightarrow> int \<Rightarrow> database \<Rightarrow> message_row list" where
  "select_user_messages gamespace account_id db =
     filter (\<lambda>m. m_gamespace_id m = gamespace
                \<and> m_message_recipient_class m = CLASS_USER
                \<and> m_message_recipient m = str_int account_id)
       (messages db)"

definition select_sent_messages :: "int \<Rightarrow> int \<Rightarrow> database \<Rightarrow> message_row list" where
  "select_sent_messages gamespace account_id db =
     filter (\<lambda>m. m_gamespace_id m = gamespace
                \<and> sql_eq_int (m_message_sender m) (PStr (str_int account_id)))
       (messages db)"

definition select_account_messages ::
  "int \<Rightarrow> int \<Rightarrow> int \<Rightarrow> int \<Rightarrow> database \<Rightarrow> message_row list option" where
  "select_account_messages gamespace account_id lim off db =
     sql_limit off lim
       (order_by_message_id_desc
          (remdups (select_group_messages gamespace account_id db
                    @ select_user_messages gamespace account_id db
                    @ select_sent_messages gamespace account_id db)))"

definition list_messages_account ::
  "int \<Rightarrow> int \<Rightarrow> int \<Rightarrow> int \<Rightarrow> database \<Rightarrow> (error + MessageAdapter list) \<times> database" where
  "list_messages_account gamespace account_id lim off d =
     (if lim < 1 \<or> lim > 10000 \<or> off < 0 \<or> off > 10000
      then (Inl (MessageError 400 ''Bad limit/offset''), d)
      else
        (case db_query (select_account_messages gamespace account_id lim off) d of
           (Inl e, d') \<Rightarrow>
             (Inl (MessageError 500
                (''Failed to list incoming messages for account: '' @ args1 e)), d')
         | (Inr rows, d') \<Rightarrow> (map_adapter MessageAdapter (map message_dict rows), d')))"

text \<open>
  The loop of \<^verbatim>\<open>read_incoming_messages\<close>, then its statements. The \<^verbatim>\<open>UPDATE\<close> and the
  \<^verbatim>\<open>DELETE\<close> go through the connection's \<^verbatim>\<open>query\<close> call, which drops what they return. The receiver is the caller's callback, with a
  state of its own that each call may change. Beside the two lists of ids the loop
  fills, \<open>calls\<close> records each call made to the receiver and what it returned.
\<close>

fun receive ::
  "('s \<Rightarrow> MessageAdapter \<Rightarrow> bool \<times> 's) \<Rightarrow> MessageAdapter list \<Rightarrow> 's \<Rightarrow>
   pyval list \<Rightarrow> pyval list \<Rightarrow> (MessageAdapter \<times> bool) list \<Rightarrow>
   pyval list \<times> pyval list \<times> (MessageAdapter \<times> bool) list \<times> 's" where
  "receive receiver [] rs mark_delivered_ids remove_ids calls =
     (mark_delivered_ids, remove_ids, calls, rs)"
| "receive receiver (m # ms) rs mark_delivered_ids remove_ids calls =
     (case receiver rs m of
        (recv, rs') \<Rightarrow>
          if recv then
            (if flags_contains REMOVE_DELIVERED (flags m)
             then receive receiver ms rs' mark_delivered_ids (remove_ids @ [message_id m])
                    (calls @ [(m, recv)])
             else receive receiver ms rs' (mark_delivered_ids @ [message_id m]) remove_ids
                    (calls @ [(m, recv)]))
          else receive receiver ms rs' mark_delivered_ids remove_ids (calls @ [(m, recv)]))"

definition select_undelivered :: "int \<Rightarrow> string \<Rightarrow> string \<Rightarrow> database \<Rightarrow> message_row list option" where
  "select_undelivered gamespace rcpt_class rcpt db =
     Some (filter (\<lambda>m. m_message_recipient_class m = rcpt_class
                      \<and> m_message_recipient m = rcpt
                      \<and> m_gamespace_id m = gamespace
                      \<and> m_message_delivered m = 0)
             (messages db))"

definition update_delivered :: "int \<Rightarrow> pyval list \<Rightarrow> database \<Rightarrow> db_error + database \<times> int" where
  "update_delivered gamespace ids db =
     Inr (db\<lparr>messages :=
               map (\<lambda>m. if m_gamespace_id m = gamespace \<and> sql_in_int (m_message_id m) ids
                        then m\<lparr>m_message_delivered := 1\<rparr> else m)
                 (messages db)\<rparr>,
          int (length (filter (\<lambda>m. m_gamespace_id m = gamespace
                                   \<and> sql_in_int (m_message_id m) ids) (messages db))))"

definition delete_from_messages ::
  "(message_row \<Rightarrow> bool) \<Rightarrow> database \<Rightarrow> db_error + database \<times> int" where
  "delete_from_messages cond db =
     Inr (db\<lparr>messages := filter (\<lambda>m. \<not> cond m) (messages db)\<rparr>,
          int (length (filter cond (messages db))))"

definition read_failed :: "db_error \<Rightarrow> error" where
  "read_failed e = MessageError 500 (''Failed to read incoming messages: '' @ args1 e)"

definition read_incoming_messages ::
  "int \<Rightarrow> string \<Rightarrow> string \<Rightarrow> ('s \<Rightarrow> MessageAdapter \<Rightarrow> bool \<times> 's) \<Rightarrow> 's \<Rightarrow> database \<Rightarrow>
   (error + unit) \<times> (MessageAdapter \<times> bool) list \<times> 's \<times> database" where
  "read_incoming_messages gamespace rcpt_class rcpt receiver rs d =
     (case db_acquire d of
        (Inl e, d1) \<Rightarrow> (Inl (read_failed e), [], rs, d1)
      | (Inr _, d1) \<Rightarrow>
     (case db_query (select_undelivered gamespace rcpt_class rcpt) d1 of
        (Inl e, d2) \<Rightarrow> (Inl (read_failed e), [], rs, rollback d d2)
      | (Inr rows, d2) \<Rightarrow>
     (case map_adapter MessageAdapter (map message_dict rows) of
        Inl e \<Rightarrow> (Inl e, [], rs, rollback d d2)
      | Inr ms \<Rightarrow>
     (case receive receiver ms rs [] [] [] of
        (mark_delivered_ids, remove_ids, calls, rs') \<Rightarrow>
     (case (if mark_delivered_ids \<noteq> []
            then db_execute (update_delivered gamespace mark_delivered_ids) d2
            else (Inr 0, d2)) of
        (Inl e, d3) \<Rightarrow> (Inl (read_failed e), calls, rs', rollback d d3)
      | (Inr _, d3) \<Rightarrow>
     (case (if remove_ids \<noteq> []
            then db_execute
                   (delete_from_messages
                      (\<lambda>m. m_gamespace_id m = gamespace \<and> sql_in_int (m_message_id m) remove_ids))
                   d3
            else (Inr 0, d3)) of
        (Inl e, d4) \<Rightarrow> (Inl (read_failed e), calls, rs', rollback d d4)
      | (Inr _, d4) \<Rightarrow>
     (case db_commit d4 of
        (Inl e, d5) \<Rightarrow> (Inl (read_failed e), calls, rs', rollback d d5)
      | (Inr _, d5) \<Rightarrow> (Inr (), calls, rs', d5))))))))"

definition delete_messages_like ::
  "int \<Rightarrow> string \<Rightarrow> string \<Rightarrow> database \<Rightarrow> (error + unit) \<times> database" where
  "delete_messages_like gamespace rcpt_class recipient_like d =
     (case db_execute
             (delete_from_messages
                (\<lambda>m. sql_like rcpt_class (m_message_recipient_class m)
                     \<and> m_message_recipient m = recipient_like
                     \<and> m_gamespace_id m = gamespace)) d of
        (Inl e, d') \<Rightarrow> (Inl (MessageError 500 (''Failed to delete messages: '' @ args1 e)), d')
      | (Inr _, d') \<Rightarrow> (Inr (), d'))"

section \<open>group.py\<close>

text \<open>
  \<^verbatim>\<open>GroupAndParticipationAdapter\<close> runs both constructors on the same dictionary, the
  participation's last, so \<^verbatim>\<open>group_id\<close> and \<^verbatim>\<open>group_class\<close> end as the participation's
  constructor sets them.
\<close>

record GroupAndParticipationAdapter = GroupParticipationAdapter +
  key :: string
  clustered :: bool
  cluster_size :: pyval

definition GroupAndParticipationAdapter :: "row \<Rightarrow> error + GroupAndParticipationAdapter" where
  "GroupAndParticipationAdapter data =
     (case GroupParticipationAdapter data of
        Inl e \<Rightarrow> Inl e
      | Inr p \<Rightarrow>
          Inr (GroupParticipationAdapter.extend p
                 \<lparr> key = GroupAdapter.key (GroupAdapter data),
                   clustered = GroupAdapter.clustered (GroupAdapter data),
                   cluster_size = GroupAdapter.cluster_size (GroupAdapter data) \<rparr>))"

subsection \<open>The statements on the participation and group tables\<close>

text \<open>A value stored into an integer column that takes no \<^verbatim>\<open>NULL\<close>.\<close>

fun sql_int :: "pyval \<Rightarrow> int option" where
  "sql_int PNone = None"
| "sql_int (PBool b) = Some (if b then 1 else 0)"
| "sql_int (PInt i) = Some i"
| "sql_int (PStr s) = parse_int s"

text \<open>
  Modelled from the spec: the table declarations are not among the sources. The spec
  gives the pair of group id and account as unique together, and the participation id as
  generated by the storage on insertion.
\<close>

definition insert_participant ::
  "int \<Rightarrow> pyval \<Rightarrow> string \<Rightarrow> string \<Rightarrow> int \<Rightarrow> string \<Rightarrow> int \<Rightarrow> database \<Rightarrow>
   db_error + database \<times> int" where
  "insert_participant gamespace gid gclass gkey account_id role_name cid db =
     (case sql_int gid of
        None \<Rightarrow> Inl (DatabaseError ''Column group_id cannot be null'')
      | Some g \<Rightarrow>
          if list_ex (\<lambda>p. p_group_id p = g \<and> p_participation_account p = account_id)
               (group_participants db)
          then Inl (DuplicateError ''Duplicate entry'')
          else
            Inr (db\<lparr>group_participants := group_participants db @
                       [\<lparr> p_gamespace_id = gamespace,
                          p_participation_id = participation_auto_increment db,
                          p_group_id = g, p_group_class = gclass, p_group_key = gkey,
                          p_participation_account = account_id,
                          p_participation_role = role_name, p_cluster_id = cid \<rparr>],
                     participation_auto_increment := participation_auto_increment db + 1\<rparr>,
                 1))"

definition delete_from_participants ::
  "(participant_row \<Rightarrow> bool) \<Rightarrow> database \<Rightarrow> db_error + database \<times> int" where
  "delete_from_participants cond db =
     Inr (db\<lparr>group_participants := filter (\<lambda>p. \<not> cond p) (group_participants db)\<rparr>,
          int (length (filter cond (group_participants db))))"

definition delete_from_groups ::
  "(group_row \<Rightarrow> bool) \<Rightarrow> database \<Rightarrow> db_error + database \<times> int" where
  "delete_from_groups cond db =
     Inr (db\<lparr>groups := filter (\<lambda>g. \<not> cond g) (groups db)\<rparr>,
          int (length (filter cond (groups db))))"

text \<open>\<^verbatim>\<open>column IN %s\<close> with an empty list is a statement the server cannot parse.\<close>

definition delete_participants_of ::
  "(participant_row \<Rightarrow> bool) \<Rightarrow> int list \<Rightarrow> database \<Rightarrow> db_error + database \<times> int" where
  "delete_participants_of scope accounts db =
     (if accounts = [] then Inl (DatabaseError (rejection db))
      else delete_from_participants
             (\<lambda>p. scope p \<and> p_participation_account p \<in> set accounts) db)"

text \<open>
  The joins. A joined row lists the group's columns, then the participation's; of two
  columns of one name the dictionary keeps the first under that name.
\<close>

definition select_groups_account_participates :: "int \<Rightarrow> int \<Rightarrow> database \<Rightarrow> row list option" where
  "select_groups_account_participates gamespace account_id db =
     Some [group_dict g @ participant_dict p.
             p \<leftarrow> group_participants db, g \<leftarrow> groups db,
             p_group_id p = g_group_id g
             \<and> p_participation_account p = account_id \<and> p_gamespace_id p = gamespace]"

definition select_group_with_participation ::
  "int \<Rightarrow> string \<Rightarrow> string \<Rightarrow> int \<Rightarrow> database \<Rightarrow> row list option" where
  "select_group_with_participation gamespace gclass gkey account_id db =
     Some (concat
       (map (\<lambda>g. case filter (\<lambda>p. g_group_id g = p_group_id p
                                   \<and> g_gamespace_id g = p_gamespace_id p
                                   \<and> p_participation_account p = account_id)
                        (group_participants db) of
                   [] \<Rightarrow> [group_dict g @ participant_nulls]
                 | ps \<Rightarrow> map (\<lambda>p. group_dict g @ participant_dict p) ps)
          (filter (\<lambda>g. g_gamespace_id g = gamespace \<and> g_group_class g = gclass
                       \<and> g_group_key g = gkey)
             (groups db))))"

text \<open>
  The collaborators of \<^verbatim>\<open>GroupsModel\<close>. The cluster service belongs to another package:
  its two calls are parameters, acting on a state \<open>'c\<close> of their own. The presence
  registry and the message queue are the application's: \<open>online\<close> lists the bindings made,
  \<open>message_queue\<close> the notifications handed over, in order.
\<close>

record 'c Cluster =
  get_cluster :: "int \<Rightarrow> int \<Rightarrow> pyval \<Rightarrow> pyval \<Rightarrow> bool \<Rightarrow> 'c \<Rightarrow> (error + int) \<times> 'c"
  leave_cluster :: "int \<Rightarrow> int \<Rightarrow> pyval \<Rightarrow> 'c \<Rightarrow> (error + unit) \<times> 'c"

type_synonym json_dict = "(string \<times> pyval) list"

record queued_message =
  q_gamespace :: int
  q_account :: int
  q_recipient_class :: string
  q_recipient :: string
  q_message_type :: string
  q_payload :: json_dict
  q_flags :: DeliveryFlags
  q_authoritative :: bool

record 'c world =
  db :: database
  cluster :: 'c
  online :: "(int \<times> GroupParticipationAdapter) list"
  message_queue :: "queued_message list"

definition MESSAGE_PLAYER_JOINED :: string where
  "MESSAGE_PLAYER_JOINED = ''player_joined''"

definition MESSAGE_PLAYER_LEFT :: string where
  "MESSAGE_PLAYER_LEFT = ''player_left''"

text \<open>\<^verbatim>\<open>if notify:\<close> holds for a dictionary that is given and not empty.\<close>

definition notify_given :: "json_dict option \<Rightarrow> bool" where
  "notify_given notify = (case notify of None \<Rightarrow> False | Some kv \<Rightarrow> kv \<noteq> [])"

definition add_message ::
  "int \<Rightarrow> int \<Rightarrow> string \<Rightarrow> string \<Rightarrow> string \<Rightarrow> json_dict option \<Rightarrow> bool \<Rightarrow> 'c world \<Rightarrow> 'c world" where
  "add_message gamespace account_id rcpt_class rcpt mtype notify authoritative w =
     w\<lparr>message_queue := message_queue w @
         [\<lparr> q_gamespace = gamespace, q_account = account_id, q_recipient_class = rcpt_class,
            q_recipient = rcpt, q_message_type = mtype,
            q_payload = (case notify of None \<Rightarrow> [] | Some kv \<Rightarrow> kv),
            q_flags = [], q_authoritative = authoritative \<rparr>]\<rparr>"

subsection \<open>GroupsModel\<close>

definition accounts_deleted ::
  "int \<Rightarrow> int list \<Rightarrow> bool \<Rightarrow> database \<Rightarrow> (error + unit) \<times> database" where
  "accounts_deleted gamespace accounts gamespace_only d =
     (case (if gamespace_only
            then db_execute (delete_participants_of (\<lambda>p. p_gamespace_id p = gamespace) accounts) d
            else db_execute (delete_participants_of (\<lambda>p. True) accounts) d) of
        (Inl e, d') \<Rightarrow> (Inl (MessageError 500 (''Failed to delete messages: '' @ args1 e)), d')
      | (Inr _, d') \<Rightarrow> (Inr (), d'))"

definition delete_group :: "int \<Rightarrow> GroupAdapter \<Rightarrow> database \<Rightarrow> (error + unit) \<times> database" where
  "delete_group gamespace grp d =
     (let gid = GroupAdapter.group_id grp in
      case delete_messages_like gamespace (GroupAdapter.group_class grp)
             (GroupAdapter.key grp @ ''-%'') d of
        (Inl e, d1) \<Rightarrow>
          (case e of
             MessageError code msg \<Rightarrow>
               (Inl (GroupError 500 (''Failed to delete group's messages: '' @ msg)), d1)
           | _ \<Rightarrow> (Inl e, d1))
      | (Inr _, d1) \<Rightarrow>
          (case db_execute
                  (delete_from_groups
                     (\<lambda>g. sql_eq_int (g_group_id g) gid \<and> g_gamespace_id g = gamespace)) d1 of
             (Inl e, d2) \<Rightarrow>
               (Inl (GroupError 500 (''Failed to delete a group: '' @ args1 e)), d2)
           | (Inr _, d2) \<Rightarrow> (Inr (), d2)))"

definition join_group ::
  "'c Cluster \<Rightarrow> int \<Rightarrow> GroupAdapter \<Rightarrow> int \<Rightarrow> string \<Rightarrow> json_dict option \<Rightarrow> bool \<Rightarrow>
   'c world \<Rightarrow> (error + GroupParticipationAdapter) \<times> 'c world" where
  "join_group cl gamespace grp account_id role_name notify authoritative w =
     (let gid = GroupAdapter.group_id grp in
      case (if GroupAdapter.clustered grp
            then get_cluster cl gamespace account_id gid (GroupAdapter.cluster_size grp)
                   True (cluster w)
            else (Inr 0, cluster w)) of
        (Inl e, c1) \<Rightarrow> (Inl e, w\<lparr>cluster := c1\<rparr>)
      | (Inr cid, c1) \<Rightarrow>
          (case db_execute
                  (insert_participant gamespace gid (GroupAdapter.group_class grp)
                     (GroupAdapter.key grp) account_id role_name cid) (db w) of
             (Inl (DuplicateError msg), d1) \<Rightarrow>
               (Inl UserAlreadyJoined, w\<lparr>db := d1, cluster := c1\<rparr>)
           | (Inl (DatabaseError msg), d1) \<Rightarrow>
               (Inl (GroupError 500 (''Failed to join a group: '' @ msg)),
                w\<lparr>db := d1, cluster := c1\<rparr>)
           | (Inr pid, d1) \<Rightarrow>
               (case GroupParticipationAdapter
                       [(''participation_id'', PInt pid),
                        (''group_id'', gid),
                        (''group_class'', PStr (GroupAdapter.group_class grp)),
                        (''group_key'', PStr (GroupAdapter.key grp)),
                        (''cluster_id'', PInt cid),
                        (''account'', PInt account_id),
                        (''role'', PStr role_name)] of
                  Inl e \<Rightarrow> (Inl e, w\<lparr>db := d1, cluster := c1\<rparr>)
                | Inr participation \<Rightarrow>
                    (let w1 = w\<lparr>db := d1, cluster := c1,
                                 online := online w @ [(account_id, participation)]\<rparr>;
                         w2 = (if notify_given notify
                               then add_message gamespace account_id
                                      (GroupAdapter.group_class grp)
                                      (calculate_recipient participation)
                                      MESSAGE_PLAYER_JOINED notify authoritative w1
                               else w1)
                     in (Inr participation, w2)))))"

definition get_group_participation ::
  "int \<Rightarrow> int \<Rightarrow> database \<Rightarrow> (error + GroupParticipationAdapter) \<times> database" where
  "get_group_participation gamespace pid d =
     (case db_get
             (\<lambda>db. Some (filter (\<lambda>p. p_participation_id p = pid \<and> p_gamespace_id p = gamespace)
                            (group_participants db))) d of
        (Inl e, d') \<Rightarrow>
          (Inl (GroupError 500 (''Failed to get group participant: '' @ args1 e)), d')
      | (Inr None, d') \<Rightarrow> (Inl GroupParticipantNotFound, d')
      | (Inr (Some p), d') \<Rightarrow> (GroupParticipationAdapter (participant_dict p), d'))"

definition find_group_participant ::
  "int \<Rightarrow> pyval \<Rightarrow> int \<Rightarrow> database \<Rightarrow> (error + GroupParticipationAdapter) \<times> database" where
  "find_group_participant gamespace group_id_arg account_id d =
     (case validate_int group_id_arg of
        Inl e \<Rightarrow> (Inl e, d)
      | Inr gid \<Rightarrow>
          (case db_get
                  (\<lambda>db. Some (filter (\<lambda>p. p_group_id p = gid
                                          \<and> p_participation_account p = account_id
                                          \<and> p_gamespace_id p = gamespace)
                                 (group_participants db))) d of
             (Inl e, d') \<Rightarrow>
               (Inl (GroupError 500 (''Failed to get group participant: '' @ args1 e)), d')
           | (Inr None, d') \<Rightarrow> (Inl GroupParticipantNotFound, d')
           | (Inr (Some p), d') \<Rightarrow> (GroupParticipationAdapter (participant_dict p), d')))"

text \<open>\<^verbatim>\<open>except ClusterError: pass\<close> around the release of the cluster slot.\<close>

fun swallow_cluster_error :: "error + unit \<Rightarrow> error + unit" where
  "swallow_cluster_error (Inl ClusterError) = Inr ()"
| "swallow_cluster_error r = r"

definition leave_group ::
  "'c Cluster \<Rightarrow> int \<Rightarrow> GroupAdapter \<Rightarrow> int \<Rightarrow> json_dict option \<Rightarrow> bool \<Rightarrow>
   'c world \<Rightarrow> (error + unit) \<times> 'c world" where
  "leave_group cl gamespace grp account_id notify authoritative w =
     (case find_group_participant gamespace (GroupAdapter.group_id grp) account_id (db w) of
        (Inl e, d1) \<Rightarrow> (Inl e, w\<lparr>db := d1\<rparr>)
      | (Inr participation, d1) \<Rightarrow>
          (case db_execute
                  (delete_from_participants
                     (\<lambda>p. p_gamespace_id p = gamespace
                          \<and> sql_eq_int (p_participation_id p)
                               (PStr (participation_id participation)))) d1 of
             (Inl e, d2) \<Rightarrow>
               (Inl (GroupError 500 (''Failed to leave a group: '' @ args1 e)), w\<lparr>db := d2\<rparr>)
           | (Inr _, d2) \<Rightarrow>
               (case (if cluster_id participation \<noteq> 0
                      then (case leave_cluster cl gamespace account_id
                                   (GroupAdapter.group_id grp) (cluster w) of
                              (r, c') \<Rightarrow> (swallow_cluster_error r, c'))
                      else (Inr (), cluster w)) of
                  (Inl e, c1) \<Rightarrow> (Inl e, w\<lparr>db := d2, cluster := c1\<rparr>)
                | (Inr _, c1) \<Rightarrow>
                    (let w1 = w\<lparr>db := d2, cluster := c1\<rparr>
                     in (Inr (),
                         if notify_given notify
                         then add_message gamespace account_id (GroupAdapter.group_class grp)
                                (calculate_recipient participation)
                                MESSAGE_PLAYER_LEFT notify authoritative w1
                         else w1)))))"

definition list_groups_account_participates ::
  "int \<Rightarrow> int \<Rightarrow> database \<Rightarrow> (error + GroupAndParticipationAdapter list) \<times> database" where
  "list_groups_account_participates gamespace account_id d =
     (case db_query (select_groups_account_participates gamespace account_id) d of
        (Inl e, d') \<Rightarrow>
          (Inl (GroupError 500 (''Failed to list group account participate: '' @ args1 e)), d')
      | (Inr rows, d') \<Rightarrow> (map_adapter GroupAndParticipationAdapter rows, d'))"

definition find_group_with_participation ::
  "int \<Rightarrow> string \<Rightarrow> string \<Rightarrow> int \<Rightarrow> database \<Rightarrow>
   (error + GroupAndParticipationAdapter) \<times> database" where
  "find_group_with_participation gamespace gclass gkey account_id d =
     (case db_get (select_group_with_participation gamespace gclass gkey account_id) d of
        (Inl e, d') \<Rightarrow> (Inl (GroupError 500 (''Failed to find a group: '' @ args1 e)), d')
      | (Inr None, d') \<Rightarrow> (Inl GroupNotFound, d')
      | (Inr (Some data), d') \<Rightarrow>
          if \<not> py_bool (get data ''participation_id'')
          then (Inl GroupParticipantNotFound, d')
          else (GroupAndParticipationAdapter data, d'))"

section \<open>Vocabulary of the statements\<close>

text \<open>
  The outcome the script holds for the next storage call, and the database once that
  call is over: the script one entry shorter, one more call issued, the tables as they
  were.
\<close>

definition next_fault :: "database \<Rightarrow> string option" where
  "next_fault d = (case faults d of [] \<Rightarrow> None | f # _ \<Rightarrow> f)"

definition after_call :: "database \<Rightarrow> database" where
  "after_call d = d\<lparr>faults := tl (faults d), issued := issued d + 1\<rparr>"

text \<open>Two databases hold the same tables.\<close>

definition same_tables :: "database \<Rightarrow> database \<Rightarrow> bool" where
  "same_tables d d' =
     (groups d' = groups d \<and> group_participants d' = group_participants d
      \<and> messages d' = messages d
      \<and> participation_auto_increment d' = participation_auto_increment d)"

text \<open>The message object built from a stored row.\<close>

definition stored_message :: "message_row \<Rightarrow> MessageAdapter" where
  "stored_message m =
     \<lparr> message_id = PInt (m_message_id m),
       message_uuid = PStr (m_message_uuid m),
       recipient_class = m_message_recipient_class m,
       sender = str_int (m_message_sender m),
       recipient = m_message_recipient m,
       time = PInt (m_message_time m),
       message_type = PStr (m_message_type m),
       payload = PStr (m_message_payload m),
       delivered = PInt (m_message_delivered m),
       flags = split CHR '','' (lower (m_message_flags m)) \<rparr>"



text \<open>
  The undelivered messages of a recipient, in table order, and all the messages of a
  recipient, as \<^verbatim>\<open>read_incoming_messages\<close> and \<^verbatim>\<open>list_incoming_messages\<close> select them.
\<close>

definition undelivered :: "int \<Rightarrow> string \<Rightarrow> string \<Rightarrow> database \<Rightarrow> message_row list" where
  "undelivered gamespace rcpt_class rcpt d =
     filter (\<lambda>m. m_message_recipient_class m = rcpt_class \<and> m_message_recipient m = rcpt
                \<and> m_gamespace_id m = gamespace \<and> m_message_delivered m = 0)
       (messages d)"

definition incoming :: "int \<Rightarrow> string \<Rightarrow> string \<Rightarrow> database \<Rightarrow> message_row list" where
  "incoming gamespace rcpt_class rcpt d =
     filter (\<lambda>m. m_message_recipient_class m = rcpt_class \<and> m_message_recipient m = rcpt
                \<and> m_gamespace_id m = gamespace)
       (messages d)"

text \<open>The message carries the flag that asks for its removal once delivered.\<close>

definition remove_on_delivery :: "message_row \<Rightarrow> bool" where
  "remove_on_delivery m = flags_contains REMOVE_DELIVERED (flags (stored_message m))"

text \<open>Message ids are the primary key of the messages of a gamespace.\<close>

definition message_ids_unique :: "int \<Rightarrow> database \<Rightarrow> bool" where
  "message_ids_unique gamespace d =
     distinct (map m_message_id (filter (\<lambda>m. m_gamespace_id m = gamespace) (messages d)))"

text \<open>What \<^verbatim>\<open>list_incoming_messages\<close> returns, nothing when it fails.\<close>

definition listed :: "int \<Rightarrow> string \<Rightarrow> string \<Rightarrow> int \<Rightarrow> database \<Rightarrow> MessageAdapter list" where
  "listed gamespace rcpt_class rcpt lim d =
     (case fst (list_incoming_messages gamespace rcpt_class rcpt lim d) of
        Inl e \<Rightarrow> []
      | Inr ms \<Rightarrow> ms)"

text \<open>
  The feed of an account as \<^verbatim>\<open>list_messages_account\<close> selects it: a message of the
  gamespace whose class and recipient are the class and key of a group that a
  participation of the account refers to, or that is addressed to the account as a user,
  or that the account sent.
\<close>

definition joined_group_key :: "int \<Rightarrow> database \<Rightarrow> message_row \<Rightarrow> bool" where
  "joined_group_key account_id d m =
     list_ex (\<lambda>g. list_ex (\<lambda>p. g_group_class g = m_message_recipient_class m
                               \<and> g_group_key g = m_message_recipient m
                               \<and> g_group_id g = p_group_id p
                               \<and> p_participation_account p = account_id)
                     (group_participants d))
       (groups d)"

definition in_feed :: "int \<Rightarrow> int \<Rightarrow> database \<Rightarrow> message_row \<Rightarrow> bool" where
  "in_feed gamespace account_id d m =
     (m_gamespace_id m = gamespace
      \<and> (joined_group_key account_id d m
          \<or> (m_message_recipient_class m = CLASS_USER \<and> m_message_recipient m = str_int account_id)
          \<or> m_message_sender m = account_id))"

text \<open>The rows of the three tables that belong to other gamespaces than the given one.\<close>

definition others ::
  "int \<Rightarrow> database \<Rightarrow> group_row list \<times> participant_row list \<times> message_row list" where
  "others gamespace d =
     (filter (\<lambda>g. g_gamespace_id g \<noteq> gamespace) (groups d),
      filter (\<lambda>p. p_gamespace_id p \<noteq> gamespace) (group_participants d),
      filter (\<lambda>m. m_gamespace_id m \<noteq> gamespace) (messages d))"

section \<open>Example states\<close>

text \<open>
  A gamespace 1 with the clustered group "guild" of class "clan" (group id 3), account
  5 in its cluster 7, and messages to the group key, to two of its cluster keys and to
  account 5 as a user; gamespace 2 holds one message of its own.
\<close>

definition example_message ::
  "int \<Rightarrow> int \<Rightarrow> string \<Rightarrow> string \<Rightarrow> int \<Rightarrow> int \<Rightarrow> string \<Rightarrow> message_row" where
  "example_message gamespace mid rcpt_class rcpt sndr dlv fl =
     \<lparr> m_gamespace_id = gamespace, m_message_id = mid, m_message_uuid = ''uuid'',
       m_message_recipient_class = rcpt_class, m_message_sender = sndr,
       m_message_recipient = rcpt, m_message_time = 1000 + mid, m_message_type = ''text'',
       m_message_payload = ''{}'', m_message_delivered = dlv, m_message_flags = fl \<rparr>"

definition guild_row :: group_row where
  "guild_row =
     \<lparr> g_gamespace_id = 1, g_group_id = 3, g_group_class = ''clan'', g_group_key = ''guild'',
       g_group_clustered = 1, g_group_cluster_size = 1000 \<rparr>"

definition guild :: GroupAdapter where
  "guild = GroupAdapter (group_dict guild_row)"

definition member_row :: participant_row where
  "member_row =
     \<lparr> p_gamespace_id = 1, p_participation_id = 1, p_group_id = 3, p_group_class = ''clan'',
       p_group_key = ''guild'', p_participation_account = 5,
       p_participation_role = ''member'', p_cluster_id = 7 \<rparr>"

definition example_db :: database where
  "example_db =
     \<lparr> groups = [guild_row],
       group_participants = [member_row],
       messages =
         [example_message 1 10 ''clan'' ''guild-7'' 9 0 [],
          example_message 1 11 ''clan'' ''guild-8'' 9 0 [],
          example_message 1 12 ''clan'' ''guild'' 9 0 [],
          example_message 1 13 ''user'' ''5'' 9 0 [],
          example_message 2 14 ''user'' ''5'' 9 0 []],
       participation_auto_increment = 42, faults = [], issued = 0,
       rejection = ''rejected'' \<rparr>"

text \<open>The same database with a storage that fails its next call.\<close>

definition faulty_db :: database where
  "faulty_db = example_db\<lparr>faults := [Some ''server has gone away'']\<rparr>"

text \<open>A cluster service that always assigns cluster 7, and a world around the database.\<close>

definition example_cluster :: "unit Cluster" where
  "example_cluster =
     \<lparr> get_cluster = (\<lambda>gamespace account_id gid size auto_create c. (Inr 7, c)),
       leave_cluster = (\<lambda>gamespace account_id gid c. (Inr (), c)) \<rparr>"

definition example_world :: "unit world" where
  "example_world = \<lparr> db = example_db, cluster = (), online = [], message_queue = [] \<rparr>"

text \<open>
  Two databases for the join of groups and participations. In \<open>foreign_group_db\<close> the
  only group, "secret", belongs to gamespace 2. In \<open>shared_id_db\<close> gamespaces 1 and 2 each
  hold a group with id 3, and account 5 participates in the one of gamespace 1.
\<close>

definition secret_row :: group_row where
  "secret_row =
     \<lparr> g_gamespace_id = 2, g_group_id = 3, g_group_class = ''clan'', g_group_key = ''secret'',
       g_group_clustered = 0, g_group_cluster_size = 1000 \<rparr>"

definition foreign_group_db :: database where
  "foreign_group_db =
     \<lparr> groups = [secret_row], group_participants = [], messages = [],
       participation_auto_increment = 1, faults = [], issued = 0,
       rejection = ''rejected'' \<rparr>"

definition shared_id_db :: database where
  "shared_id_db =
     \<lparr> groups = [guild_row, secret_row], group_participants = [member_row], messages = [],
       participation_auto_increment = 2, faults = [], issued = 0,
       rejection = ''rejected'' \<rparr>"

text \<open>
  An inbox of account 5 in gamespace 1: message 21 asks for removal on delivery, 22 and
  23 do not, 24 was delivered earlier. The receiver \<open>picky\<close> counts its calls and turns
  message 23 down.
\<close>

definition inbox_21 :: message_row where
  "inbox_21 = example_message 1 21 ''user'' ''5'' 9 0 ''remove_delivered''"

definition inbox_22 :: message_row where
  "inbox_22 = example_message 1 22 ''user'' ''5'' 9 0 []"

definition inbox_23 :: message_row where
  "inbox_23 = example_message 1 23 ''user'' ''5'' 9 0 []"

definition inbox_24 :: message_row where
  "inbox_24 = example_message 1 24 ''user'' ''5'' 9 1 []"

definition inbox_db :: database where
  "inbox_db =
     \<lparr> groups = [], group_participants = [],
       messages = [inbox_21, inbox_22, inbox_23, inbox_24],
       participation_auto_increment = 1, faults = [], issued = 0,
       rejection = ''rejected'' \<rparr>"

text \<open>The inbox once \<open>picky\<close> has read it: five storage calls later.\<close>

definition inbox_after :: database where
  "inbox_after =
     inbox_db\<lparr>messages := [inbox_22\<lparr>m_message_delivered := 1\<rparr>, inbox_23, inbox_24],
              issued := 5\<rparr>"

definition picky :: "nat \<Rightarrow> MessageAdapter \<Rightarrow> bool \<times> nat" where
  "picky n m = (message_id m \<noteq> PInt 23, n + 1)"

definition foreign_world :: "unit world" where
  "foreign_world = \<lparr> db = foreign_group_db, cluster = (), online = [], message_queue = [] \<rparr>"

section \<open>The storage calls, unfolded\<close>

text \<open>
  Each storage call consumes the next entry of the script and leaves the tables alone
  unless its statement changes them.
\<close>

lemma storage_call_eq: "storage_call d = (next_fault d, after_call d)"
  by (simp add: storage_call_def next_fault_def after_call_def split: list.splits)

lemma after_call_fields [simp]:
  "groups (after_call d) = groups d"
  "group_participants (after_call d) = group_participants d"
  "messages (after_call d) = messages d"
  "participation_auto_increment (after_call d) = participation_auto_increment d"
  "issued (after_call d) = Suc (issued d)"
  "faults (after_call d) = tl (faults d)"
  "rejection (after_call d) = rejection d"
  by (simp_all add: after_call_def)

lemma same_tables_refl [simp]: "same_tables d d"
  by (simp add: same_tables_def)

lemma same_tables_after_call [simp]: "same_tables d (after_call d)"
  by (simp add: same_tables_def)

lemma db_query_eq:
  "db_query select d =
     (case next_fault d of
        Some msg \<Rightarrow> (Inl (DatabaseError msg), after_call d)
      | None \<Rightarrow> (case select (after_call d) of
                   None \<Rightarrow> (Inl (DatabaseError (rejection d)), after_call d)
                 | Some rows \<Rightarrow> (Inr rows, after_call d)))"
  by (simp add: db_query_def storage_call_eq split: option.splits)

lemma db_execute_eq:
  "db_execute statement d =
     (case next_fault d of
        Some msg \<Rightarrow> (Inl (DatabaseError msg), after_call d)
      | None \<Rightarrow> (case statement (after_call d) of
                   Inl e \<Rightarrow> (Inl e, after_call d)
                 | Inr (d'', n) \<Rightarrow> (Inr n, d'')))"
  by (simp add: db_execute_def storage_call_eq split: option.splits)

lemma db_get_eq:
  "db_get select d =
     (case next_fault d of
        Some msg \<Rightarrow> (Inl (DatabaseError msg), after_call d)
      | None \<Rightarrow> (case select (after_call d) of
                   None \<Rightarrow> (Inl (DatabaseError (rejection d)), after_call d)
                 | Some [] \<Rightarrow> (Inr None, after_call d)
                 | Some (r # rs) \<Rightarrow> (Inr (Some r), after_call d)))"
  by (simp add: db_get_def db_query_eq split: option.splits list.splits)

lemma db_acquire_eq:
  "db_acquire d =
     (case next_fault d of
        Some msg \<Rightarrow> (Inl (DatabaseError msg), after_call d)
      | None \<Rightarrow> (Inr (), after_call d))"
  by (simp add: db_acquire_def storage_call_eq split: option.splits)

lemma db_commit_eq:
  "db_commit d =
     (case next_fault d of
        Some msg \<Rightarrow> (Inl (DatabaseError msg), after_call d)
      | None \<Rightarrow> (Inr (), after_call d))"
  by (simp add: db_commit_def storage_call_eq split: option.splits)

text \<open>A row of the messages table always makes a message object.\<close>

lemma MessageAdapter_message_dict [simp]:
  "MessageAdapter (message_dict m) = Inr (stored_message m)"
  by (simp add: MessageAdapter_def message_dict_def stored_message_def get_def get_default_def)

lemma map_adapter_message_dict [simp]:
  "map_adapter MessageAdapter (map message_dict rows) = Inr (map stored_message rows)"
  by (induction rows) simp_all

lemma message_id_stored [simp]: "message_id (stored_message m) = PInt (m_message_id m)"
  by (simp add: stored_message_def)

lemma stored_message_delivered [simp]:
  "delivered (stored_message m) = PInt (m_message_delivered m)"
  by (simp add: stored_message_def)

text \<open>
  \<^verbatim>\<open>str\<close> of an integer is read back by \<^verbatim>\<open>int\<close>, so it is injective, and the server
  reads it as the same integer: comparing an integer column with \<^verbatim>\<open>str(n)\<close> compares it
  with \<open>n\<close>.
\<close>

lemma digit_val_digit: "k < 10 \<Longrightarrow> digit_val (''0123456789'' ! k) = Some k"
proof -
  assume "k < 10"
  then consider "k = 0" | "k = 1" | "k = 2" | "k = 3" | "k = 4" | "k = 5" | "k = 6" | "k = 7"
    | "k = 8" | "k = 9" by atomize_elim arith
  then show ?thesis by cases (simp_all add: digit_val_def)
qed

lemma parse_digits_snoc:
  "parse_digits acc (xs @ [c]) =
     (case parse_digits acc xs of
        None \<Rightarrow> None
      | Some v \<Rightarrow> (case digit_val c of None \<Rightarrow> None | Some k \<Rightarrow> Some (10 * v + k)))"
  by (induction xs arbitrary: acc) (simp_all split: option.splits)

lemma parse_digits_digits: "parse_digits 0 (digits n) = Some n"
proof (induction n rule: digits.induct)
  case (1 n)
  show ?case
  proof (cases "n < 10")
    case True
    then show ?thesis by (subst digits.simps) (simp add: digit_val_digit)
  next
    case False
    with 1 have "parse_digits 0 (digits (n div 10)) = Some (n div 10)" by simp
    moreover have "digit_val (''0123456789'' ! (n mod 10)) = Some (n mod 10)"
      by (rule digit_val_digit) simp
    ultimately show ?thesis using False
      by (subst digits.simps) (simp add: parse_digits_snoc)
  qed
qed

lemma digits_all_digits: "\<forall>c \<in> set (digits n). is_digit c"
proof (induction n rule: digits.induct)
  case (1 n)
  have l: "is_digit (''0123456789'' ! (n mod 10))"
    unfolding is_digit_def using digit_val_digit [of "n mod 10"] by simp
  show ?case
  proof (cases "n < 10")
    case True
    with l show ?thesis by (subst digits.simps) simp
  next
    case False
    with 1 l show ?thesis by (subst digits.simps) simp
  qed
qed

lemma digits_not_empty: "digits n \<noteq> []"
  by (subst digits.simps) simp

lemma is_digit_plain:
  "is_digit c \<Longrightarrow> \<not> is_space c \<and> c \<noteq> CHR ''-'' \<and> c \<noteq> CHR ''+''"
  by (auto simp add: is_digit_def is_space_def digit_val_def)

lemma digits_cases:
  obtains c cs where "digits n = c # cs" "is_digit c" "\<forall>x \<in> set cs. is_digit x"
  using digits_not_empty [of n] digits_all_digits [of n] by (cases "digits n") auto

lemma strip_id:
  assumes "xs \<noteq> []" "\<not> is_space (hd xs)" "\<not> is_space (last xs)"
  shows "strip xs = xs"
proof -
  from assms(1,2) have a: "dropWhile is_space xs = xs" by (cases xs) auto
  from assms(1,3) have "\<not> is_space (hd (rev xs))" by (simp add: hd_rev)
  with assms(1) have b: "dropWhile is_space (rev xs) = rev xs" by (cases "rev xs") auto
  show ?thesis by (simp add: strip_def a b)
qed

lemma digits_last: "is_digit (last (digits n))"
proof -
  have "last (digits n) \<in> set (digits n)" using digits_not_empty by simp
  then show ?thesis using digits_all_digits by blast
qed

lemma strip_digits: "strip (digits n) = digits n"
proof -
  obtain c cs where d: "digits n = c # cs" "is_digit c" "\<forall>x \<in> set cs. is_digit x"
    by (rule digits_cases)
  show ?thesis
    using d(1,2) digits_last [of n] is_digit_plain
    by (intro strip_id) auto
qed

lemma strip_minus_digits: "strip (CHR ''-'' # digits n) = CHR ''-'' # digits n"
  using digits_last [of n] is_digit_plain digits_not_empty [of n]
  by (intro strip_id) (auto simp add: is_space_def)

lemma parse_int_str_int: "parse_int (str_int i) = Some i"
proof (cases "i < 0")
  case True
  then show ?thesis
    by (simp add: str_int_def parse_int_def strip_minus_digits parse_digits_digits
          digits_not_empty)
next
  case False
  obtain c cs where d: "digits (nat i) = c # cs" "is_digit c" "\<forall>x \<in> set cs. is_digit x"
    by (rule digits_cases)
  have "parse_digits 0 (c # cs) = Some (nat i)"
    using parse_digits_digits [of "nat i"] d(1) by simp
  moreover have "strip (digits (nat i)) = c # cs" using strip_digits [of "nat i"] d(1) by simp
  ultimately show ?thesis
    using False is_digit_plain [OF d(2)]
    by (simp add: str_int_def parse_int_def)
qed

lemma str_int_inject [simp]: "str_int i = str_int j \<longleftrightarrow> i = j"
proof
  assume "str_int i = str_int j"
  then have "parse_int (str_int i) = parse_int (str_int j)" by simp
  then show "i = j" by (simp add: parse_int_str_int)
qed simp

lemma number_of_digits: "number_of (digits n) = n"
  by (simp add: number_of_def parse_digits_digits)

lemma takeWhile_digits [simp]:
  "takeWhile is_digit (digits n) = digits n" "dropWhile is_digit (digits n) = []"
  using digits_all_digits [of n] by (simp_all add: takeWhile_eq_all_conv)

lemma sql_number_str_int [simp]: "sql_number (str_int a) = (a, 0)"
proof (cases "a < 0")
  case True
  have "dropWhile is_space (CHR ''-'' # digits (nat (- a))) = CHR ''-'' # digits (nat (- a))"
    by (simp add: is_space_def)
  with True show ?thesis
    by (simp add: str_int_def sql_number_def read_sign_def read_fraction_def read_exponent_def
          number_of_digits digits_not_empty)
next
  case False
  obtain c cs where d: "digits (nat a) = c # cs" "is_digit c" "\<forall>x \<in> set cs. is_digit x"
    by (rule digits_cases)
  have s: "dropWhile is_space (digits (nat a)) = digits (nat a)"
    using d is_digit_plain [of c] by simp
  have r: "read_sign (digits (nat a)) = (False, digits (nat a))"
    using d is_digit_plain [of c] by (simp add: read_sign_def)
  from False show ?thesis
    by (simp add: str_int_def sql_number_def s r read_fraction_def read_exponent_def
          number_of_digits digits_not_empty)
qed

lemma sql_eq_int_str_int [simp]: "sql_eq_int c (PStr (str_int a)) \<longleftrightarrow> c = a"
  by (simp add: sql_number_str_int)

text \<open>The definitions that evaluate the example states.\<close>

lemmas example_defs =
  example_db_def example_message_def guild_row_def guild_def member_row_def faulty_db_def
  example_cluster_def example_world_def secret_row_def foreign_group_db_def shared_id_db_def
  foreign_world_def inbox_db_def inbox_after_def inbox_21_def inbox_22_def inbox_23_def inbox_24_def
  picky_def
  GroupAdapter_def group_dict_def participant_dict_def get_def get_default_def
  next_fault_def after_call_def

section \<open>Recipient keys\<close>

text \<open>
  C9. The recipient key of a participation is its group key when the cluster id is 0,
  and the group key, a dash and the decimal cluster id otherwise; for the group key
  "guild" it is "guild-7" in cluster 7 and "guild" in cluster 0.
\<close>

theorem calculate_recipient_spec:
  "calculate_recipient p =
     (if cluster_id p = 0 then group_key p else group_key p @ ''-'' @ str_int (cluster_id p))
   \<and> calculate_recipient (p\<lparr>group_key := ''guild'', cluster_id := 7\<rparr>) = ''guild-7''
   \<and> calculate_recipient (p\<lparr>group_key := ''guild'', cluster_id := 0\<rparr>) = ''guild''"
  by (simp add: calculate_recipient_def str_int_def digits.simps)

section \<open>Pagination bounds of the account feed\<close>

text \<open>
  C7. \<^verbatim>\<open>list_messages_account\<close> called with a limit outside 1..10000 or an offset outside
  0..10000 (the spec names limit 0, limit 10001, offset -1 and offset 10001) fails with
  the error of code 400 and returns the database it was given: no storage call was
  issued (the count of issued calls is part of the database) and nothing stored changed.
\<close>

theorem list_messages_account_bounds:
  assumes "lim < 1 \<or> lim > 10000 \<or> off < 0 \<or> off > 10000"
  shows "list_messages_account gamespace account_id lim off d
           = (Inl (MessageError 400 ''Bad limit/offset''), d)"
  using assms by (simp add: list_messages_account_def)

theorem list_messages_account_bounds_witness:
  "list_messages_account 1 5 0 0 example_db
     = (Inl (MessageError 400 ''Bad limit/offset''), example_db)
   \<and> list_messages_account 1 5 10001 0 example_db
     = (Inl (MessageError 400 ''Bad limit/offset''), example_db)
   \<and> list_messages_account 1 5 100 (- 1) example_db
     = (Inl (MessageError 400 ''Bad limit/offset''), example_db)
   \<and> list_messages_account 1 5 100 10001 example_db
     = (Inl (MessageError 400 ''Bad limit/offset''), example_db)"
  using list_messages_account_bounds [of 0 0 1 5 example_db]
    list_messages_account_bounds [of 10001 0 1 5 example_db]
    list_messages_account_bounds [of 100 "- 1" 1 5 example_db]
    list_messages_account_bounds [of 100 10001 1 5 example_db]
  by simp

section \<open>Deleting a group\<close>

lemma delete_messages_like_eq:
  "delete_messages_like gamespace rcpt_class recipient_like d =
     (case next_fault d of
        Some msg \<Rightarrow>
          (Inl (MessageError 500 (''Failed to delete messages: '' @ msg)), after_call d)
      | None \<Rightarrow>
          (Inr (), (after_call d)\<lparr>messages :=
             filter (\<lambda>m. \<not> (sql_like rcpt_class (m_message_recipient_class m)
                             \<and> m_message_recipient m = recipient_like
                             \<and> m_gamespace_id m = gamespace)) (messages d)\<rparr>))"
  by (simp add: delete_messages_like_def db_execute_eq delete_from_messages_def
           split: option.splits)

text \<open>
  C4. When the cleanup of the group's messages fails, \<^verbatim>\<open>delete_group\<close> raises
  \<^verbatim>\<open>GroupError\<close> with code 500 from the state the cleanup left, and the groups table is
  the one it started with: the statement that deletes the group row is never reached.
\<close>

theorem delete_group_cleanup_failure:
  assumes "delete_messages_like gamespace (GroupAdapter.group_class grp)
             (GroupAdapter.key grp @ ''-%'') d = (Inl e, d1)"
  shows "(\<exists>msg. delete_group gamespace grp d
                  = (Inl (GroupError 500 (''Failed to delete group's messages: '' @ msg)), d1))
         \<and> groups d1 = groups d"
  using assms
  by (auto simp add: delete_group_def delete_messages_like_eq split: option.splits)

theorem delete_group_cleanup_failure_witness:
  "delete_messages_like 1 (GroupAdapter.group_class guild) (GroupAdapter.key guild @ ''-%'')
       faulty_db
     = (Inl (MessageError 500 ''Failed to delete messages: server has gone away''),
        after_call faulty_db)
   \<and> delete_group 1 guild faulty_db
     = (Inl (GroupError 500
          ''Failed to delete group's messages: Failed to delete messages: server has gone away''),
        after_call faulty_db)
   \<and> groups (after_call faulty_db) = [guild_row]"
proof -
  have h: "delete_messages_like 1 (GroupAdapter.group_class guild)
             (GroupAdapter.key guild @ ''-%'') faulty_db
     = (Inl (MessageError 500 ''Failed to delete messages: server has gone away''),
        after_call faulty_db)"
    by (simp add: delete_messages_like_eq next_fault_def faulty_db_def)
  show ?thesis
    using h delete_group_cleanup_failure [OF h]
    by (simp add: delete_group_def faulty_db_def example_db_def)
qed

text \<open>
  What a successful \<^verbatim>\<open>delete_group\<close> removes: the messages of the gamespace whose class
  matches the group's class as a \<^verbatim>\<open>LIKE\<close> pattern and whose recipient is, letter for
  letter, the group key followed by "-%"; and the rows of the group's id.
\<close>

lemma delete_group_success:
  assumes "delete_group gamespace grp d = (Inr (), d')"
  shows "messages d' =
           filter (\<lambda>m. \<not> (sql_like (GroupAdapter.group_class grp) (m_message_recipient_class m)
                           \<and> m_message_recipient m = GroupAdapter.key grp @ ''-%''
                           \<and> m_gamespace_id m = gamespace)) (messages d)
         \<and> groups d' =
           filter (\<lambda>g. \<not> (sql_eq_int (g_group_id g) (GroupAdapter.group_id grp)
                           \<and> g_gamespace_id g = gamespace)) (groups d)"
  using assms
  by (auto simp add: delete_group_def delete_messages_like_eq db_execute_eq
        delete_from_groups_def split: option.splits)

text \<open>
  C1. The claim fails on the code. In the example database the group "guild" of class
  "clan" has the messages 10 and 11, addressed to its cluster keys "guild-7" and
  "guild-8", and 12, addressed to its group key. \<^verbatim>\<open>delete_group\<close> succeeds and removes the
  group row, and every message is still there: \<^verbatim>\<open>delete_messages_like\<close> applies \<^verbatim>\<open>LIKE\<close> to
  the recipient class and compares the recipient with "guild-%" for equality.
\<close>

theorem delete_group_leaves_cluster_messages:
  "fst (delete_group 1 guild example_db) = Inr ()
   \<and> groups (snd (delete_group 1 guild example_db)) = []
   \<and> messages (snd (delete_group 1 guild example_db)) = messages example_db
   \<and> example_message 1 10 ''clan'' ''guild-7'' 9 0 [] \<in> set (messages example_db)
   \<and> example_message 1 12 ''clan'' ''guild'' 9 0 [] \<in> set (messages example_db)"
  by (simp add: delete_group_def delete_messages_like_eq db_execute_eq delete_from_groups_def
        example_defs)

section \<open>Leaving a group that was never joined\<close>

lemma find_group_participant_eq:
  "find_group_participant gamespace group_id_arg account_id d =
     (case validate_int group_id_arg of
        Inl e \<Rightarrow> (Inl e, d)
      | Inr gid \<Rightarrow>
          (case next_fault d of
             Some msg \<Rightarrow>
               (Inl (GroupError 500 (''Failed to get group participant: '' @ msg)),
                after_call d)
           | None \<Rightarrow>
               (case filter (\<lambda>p. p_group_id p = gid
                                 \<and> p_participation_account p = account_id
                                 \<and> p_gamespace_id p = gamespace) (group_participants d) of
                  [] \<Rightarrow> (Inl GroupParticipantNotFound, after_call d)
                | p # ps \<Rightarrow> (GroupParticipationAdapter (participant_dict p), after_call d))))"
  by (simp add: find_group_participant_def db_get_eq
        split: sum.splits option.splits list.splits)

text \<open>
  A group id that the validation of \<^verbatim>\<open>find_group_participant\<close> cannot coerce to an
  integer ends \<^verbatim>\<open>leave_group\<close> with \<^verbatim>\<open>ValidationError\<close> before any storage call; one it can
  coerce is looked up as that integer: the string "03" finds, and removes, the
  participation of account 5 in group 3.
\<close>

lemma leave_group_invalid_group_id:
  assumes "validate_int (GroupAdapter.group_id grp) = Inl e"
  shows "leave_group cl gamespace grp account_id notify authoritative w = (Inl ValidationError, w)"
  using assms
  by (simp add: leave_group_def find_group_participant_eq validate_int_def split: sum.splits)

lemma leave_group_coerces_group_id:
  "fst (leave_group example_cluster 1 (guild\<lparr>GroupAdapter.group_id := PStr ''03''\<rparr>) 5 None False
          example_world) = Inr ()
   \<and> group_participants
        (db (snd (leave_group example_cluster 1 (guild\<lparr>GroupAdapter.group_id := PStr ''03''\<rparr>) 5
                    None False example_world))) = []"
  by (simp add: leave_group_def find_group_participant_eq validate_int_def parse_int_def
        strip_def is_space_def digit_val_def db_execute_eq delete_from_participants_def
        GroupParticipationAdapter_def notify_given_def example_defs)

text \<open>
  C8. Let the group carry an integer id (a value that the validation of
  \<^verbatim>\<open>find_group_participant\<close> accepts as the integer \<open>gid\<close>), and let the gamespace hold no
  participation row of that group id and the account. Then \<^verbatim>\<open>leave_group\<close> fails with
  \<^verbatim>\<open>GroupParticipantNotFound\<close> as soon as the storage answers the lookup (and with the
  lookup's own error when the storage fails it). The world it returns is the one it was
  given but for the record of that one storage call: the tables, the cluster state, the
  presence bindings and the queue of notifications are unchanged.
\<close>

theorem leave_group_not_joined:
  assumes "validate_int (GroupAdapter.group_id grp) = Inr gid"
    and "\<not> list_ex (\<lambda>p. p_group_id p = gid
                          \<and> p_participation_account p = account_id
                          \<and> p_gamespace_id p = gamespace)
               (group_participants (db w))"
  shows "leave_group cl gamespace grp account_id notify authoritative w =
           ((case next_fault (db w) of
               None \<Rightarrow> Inl GroupParticipantNotFound
             | Some msg \<Rightarrow>
                 Inl (GroupError 500 (''Failed to get group participant: '' @ msg))),
            w\<lparr>db := after_call (db w)\<rparr>)
         \<and> same_tables (db w) (after_call (db w))"
proof -
  have "filter (\<lambda>p. p_group_id p = gid
                          \<and> p_participation_account p = account_id
                          \<and> p_gamespace_id p = gamespace)
               (group_participants (db w)) = []"
    using assms(2) by (simp add: list_ex_iff filter_empty_conv)
  then show ?thesis
    using assms(1)
    by (simp add: leave_group_def find_group_participant_eq split: option.splits)
qed

theorem leave_group_not_joined_witness:
  "validate_int (GroupAdapter.group_id guild) = Inr 3
   \<and> \<not> list_ex (\<lambda>p. p_group_id p = 3 \<and> p_participation_account p = 6 \<and> p_gamespace_id p = 1)
         (group_participants (db example_world))
   \<and> leave_group example_cluster 1 guild 6 (Some [(''text'', PStr ''bye'')]) False example_world
     = (Inl GroupParticipantNotFound, example_world\<lparr>db := after_call example_db\<rparr>)
   \<and> group_participants (after_call example_db) = [member_row]
   \<and> message_queue (example_world\<lparr>db := after_call example_db\<rparr>) = []"
proof -
  have v: "validate_int (GroupAdapter.group_id guild) = Inr 3"
    by (simp add: validate_int_def guild_def guild_row_def GroupAdapter_def group_dict_def
          get_def)
  have h: "\<not> list_ex (\<lambda>p. p_group_id p = 3 \<and> p_participation_account p = 6
                         \<and> p_gamespace_id p = 1)
       (group_participants (db example_world))"
    by (simp add: example_world_def example_db_def member_row_def)
  have n: "next_fault (db example_world) = None"
    by (simp add: example_world_def example_db_def next_fault_def)
  show ?thesis
    using v h n
      leave_group_not_joined [OF v h, of example_cluster "Some [(''text'', PStr ''bye'')]" False]
    by (simp add: example_world_def example_db_def)
qed

section \<open>Joining a group\<close>

text \<open>
  What every successful \<^verbatim>\<open>join_group\<close> returns and stores. The row is inserted with the
  id the storage generates, the account and the role. The object returned is built from
  a dictionary with the keys "account" and "role", which the constructor does not read
  (it reads "participation_account" and "participation_role"), and from the value of
  \<^verbatim>\<open>execute\<close>, the count of rows inserted, where the generated id is what \<^verbatim>\<open>insert\<close>
  returns.
\<close>

lemma join_group_success:
  assumes "join_group cl gamespace grp account_id role_name notify authoritative w = (Inr p, w')"
  shows "participation_id p = ''1'' \<and> account p = PNone \<and> role p = PNone
         \<and> (\<exists>row. group_participants (db w') = group_participants (db w) @ [row]
                \<and> p_participation_id row = participation_auto_increment (db w)
                \<and> p_gamespace_id row = gamespace
                \<and> p_participation_account row = account_id
                \<and> p_participation_role row = role_name)"
proof -
  have q: "add_message g a c r t n au x = y \<Longrightarrow> db y = db x" for g a c r t n au and x y :: "'c world"
    by (auto simp add: add_message_def)
  show ?thesis
    using assms
    by (auto simp add: join_group_def db_execute_eq insert_participant_def
          GroupParticipationAdapter_def get_def add_message_def Let_def str_int_def digits.simps
        split: option.splits if_splits sum.splits prod.splits db_error.splits)
qed

text \<open>
  C5. The claim fails on the code. Account 6 joins the group "guild" with the role
  "member" in the example world, where the next generated participation id is 42. The
  call succeeds and the row 42 is inserted with account 6 and role "member"; the
  participation returned has account \<^verbatim>\<open>None\<close>, role \<^verbatim>\<open>None\<close> and participation id "1", and
  \<^verbatim>\<open>get_group_participation\<close> with id 1 retrieves the participation of account 5.
\<close>

theorem join_group_returns_unpopulated:
  "fst (join_group example_cluster 1 guild 6 ''member'' None False example_world)
     = Inr \<lparr> participation_id = ''1'', group_id = ''3'', group_class = ''clan'',
             group_key = ''guild'', cluster_id = 7, account = PNone, role = PNone \<rparr>
   \<and> group_participants
        (db (snd (join_group example_cluster 1 guild 6 ''member'' None False example_world)))
     = [member_row,
        \<lparr> p_gamespace_id = 1, p_participation_id = 42, p_group_id = 3, p_group_class = ''clan'',
          p_group_key = ''guild'', p_participation_account = 6,
          p_participation_role = ''member'', p_cluster_id = 7 \<rparr>]
   \<and> fst (get_group_participation 1 1
        (db (snd (join_group example_cluster 1 guild 6 ''member'' None False example_world))))
     = Inr \<lparr> participation_id = ''1'', group_id = ''3'', group_class = ''clan'',
             group_key = ''guild'', cluster_id = 7, account = PInt 5,
             role = PStr ''member'' \<rparr>"
  by (simp add: join_group_def insert_participant_def notify_given_def db_execute_eq db_get_eq
        get_group_participation_def GroupParticipationAdapter_def str_int_def digits.simps
        example_defs)

section \<open>The query builder\<close>

text \<open>
  \<^verbatim>\<open>MessagesQuery.query\<close> holds no check of its limit and offset. A limit of 0, the value
  the constructor sets, composes the statement without a \<^verbatim>\<open>LIMIT\<close> clause.
\<close>

lemma healthy_next_fault [simp]:
  "faults d = [] \<Longrightarrow> next_fault d = None"
  "faults d = [] \<Longrightarrow> faults (after_call d) = []"
  by (simp_all add: next_fault_def)




lemma MessagesQuery_select_after_call [simp]:
  "MessagesQuery_select q (after_call d) = MessagesQuery_select q d"
  by (simp add: MessagesQuery_select_def)









section \<open>Reading the incoming messages of a recipient\<close>

text \<open>
  The loop appends to what it was given: the calls it made are one per message, in
  order, and the two id lists hold the ids of the accepted messages, split by the flag.
\<close>

lemma receive_acc:
  "receive receiver ms rs mk rm cs = (mk', rm', cs', rs') \<Longrightarrow>
   \<exists>new. cs' = cs @ new \<and> map fst new = ms
     \<and> mk' = mk @ map (message_id \<circ> fst)
                  (filter (\<lambda>(m, v). v \<and> \<not> flags_contains REMOVE_DELIVERED (flags m)) new)
     \<and> rm' = rm @ map (message_id \<circ> fst)
                  (filter (\<lambda>(m, v). v \<and> flags_contains REMOVE_DELIVERED (flags m)) new)"
proof (induction ms arbitrary: rs mk rm cs)
  case Nil
  then show ?case by simp
next
  case (Cons m ms)
  obtain recv rs1 where r: "receiver rs m = (recv, rs1)" by (cases "receiver rs m")
  let ?mk1 = "if recv \<and> \<not> flags_contains REMOVE_DELIVERED (flags m) then mk @ [message_id m] else mk"
  let ?rm1 = "if recv \<and> flags_contains REMOVE_DELIVERED (flags m) then rm @ [message_id m] else rm"
  from Cons.prems r have "receive receiver ms rs1 ?mk1 ?rm1 (cs @ [(m, recv)]) = (mk', rm', cs', rs')"
    by (simp split: if_splits)
  from Cons.IH [OF this] obtain new where
    n: "cs' = (cs @ [(m, recv)]) @ new" "map fst new = ms"
       "mk' = ?mk1 @ map (message_id \<circ> fst)
                  (filter (\<lambda>(m, v). v \<and> \<not> flags_contains REMOVE_DELIVERED (flags m)) new)"
       "rm' = ?rm1 @ map (message_id \<circ> fst)
                  (filter (\<lambda>(m, v). v \<and> flags_contains REMOVE_DELIVERED (flags m)) new)"
    by blast
  show ?case
    by (rule exI [of _ "(m, recv) # new"]) (use n in auto)
qed

lemma read_incoming_success:
  assumes "read_incoming_messages gamespace rcpt_class rcpt receiver rs d = (Inr (), calls, rs', d')"
  shows "\<exists>mk rm.
           receive receiver (map stored_message (undelivered gamespace rcpt_class rcpt d)) rs [] [] []
             = (mk, rm, calls, rs')
         \<and> messages d' =
             filter (\<lambda>m. \<not> (m_gamespace_id m = gamespace \<and> sql_in_int (m_message_id m) rm))
               (map (\<lambda>m. if m_gamespace_id m = gamespace \<and> sql_in_int (m_message_id m) mk
                         then m\<lparr>m_message_delivered := 1\<rparr> else m)
                  (messages d))
         \<and> groups d' = groups d \<and> group_participants d' = group_participants d"
proof -
  obtain mk rm cs rs1 where
    rc: "receive receiver (map stored_message (undelivered gamespace rcpt_class rcpt d)) rs [] [] []
          = (mk, rm, cs, rs1)"
    by (metis prod_cases4)
  have e1: "sql_in_int x [] = False" for x by (simp add: sql_in_int_def)
  show ?thesis
    using assms rc
    by (auto simp add: read_incoming_messages_def db_acquire_eq db_query_eq db_execute_eq
          db_commit_eq select_undelivered_def undelivered_def update_delivered_def
          delete_from_messages_def e1
        split: option.splits if_splits)
qed

lemma sql_in_int_iff: "sql_in_int c vs \<longleftrightarrow> (\<exists>v \<in> set vs. sql_eq_int c v)"
  by (simp add: sql_in_int_def list_ex_iff)

lemma unique_id:
  assumes "message_ids_unique gamespace d"
    and "m \<in> set (messages d)" "n \<in> set (messages d)"
    and "m_gamespace_id m = gamespace" "m_gamespace_id n = gamespace"
    and "m_message_id m = m_message_id n"
  shows "m = n"
proof -
  have "inj_on m_message_id (set (filter (\<lambda>m. m_gamespace_id m = gamespace) (messages d)))"
    using assms(1) by (simp add: message_ids_unique_def distinct_map)
  then show ?thesis using assms(2-) by (auto dest: inj_onD)
qed

lemma undelivered_set:
  "m \<in> set (undelivered gamespace rcpt_class rcpt d) \<longleftrightarrow>
     m \<in> set (messages d) \<and> m_message_recipient_class m = rcpt_class
     \<and> m_message_recipient m = rcpt \<and> m_gamespace_id m = gamespace \<and> m_message_delivered m = 0"
  by (auto simp add: undelivered_def)

text \<open>
  The two id lists of a successful run, read against the calls: under unique ids a row
  of the batch is in a list exactly when the receiver accepted it and its flag says so.
\<close>

lemma in_ids_iff:
  assumes u: "message_ids_unique gamespace d"
    and c: "map fst calls = map stored_message (undelivered gamespace rcpt_class rcpt d)"
    and m: "m \<in> set (undelivered gamespace rcpt_class rcpt d)"
  shows "sql_in_int (m_message_id m)
           (map (message_id \<circ> fst) (filter (\<lambda>(a, v). v \<and> P (flags a)) calls))
         \<longleftrightarrow> (stored_message m, True) \<in> set calls \<and> P (flags (stored_message m))"
proof
  assume "sql_in_int (m_message_id m)
           (map (message_id \<circ> fst) (filter (\<lambda>(a, v). v \<and> P (flags a)) calls))"
  then obtain a where a: "(a, True) \<in> set calls" "P (flags a)" "sql_eq_int (m_message_id m) (message_id a)"
    by (auto simp add: sql_in_int_iff)
  from a(1) have "a \<in> set (map fst calls)" by force
  with c obtain n where n: "n \<in> set (undelivered gamespace rcpt_class rcpt d)" "a = stored_message n"
    by auto
  from a(3) n(2) have "m_message_id m = m_message_id n" by simp
  with u m n(1) have "m = n" by (auto simp add: undelivered_set intro: unique_id)
  with a n show "(stored_message m, True) \<in> set calls \<and> P (flags (stored_message m))" by simp
next
  assume "(stored_message m, True) \<in> set calls \<and> P (flags (stored_message m))"
  then show "sql_in_int (m_message_id m)
           (map (message_id \<circ> fst) (filter (\<lambda>(a, v). v \<and> P (flags a)) calls))"
    by (force simp add: sql_in_int_iff)
qed

lemma read_incoming_rows:
  assumes ok: "read_incoming_messages gamespace rcpt_class rcpt receiver rs d = (Inr (), calls, rs', d')"
  shows "map fst calls = map stored_message (undelivered gamespace rcpt_class rcpt d)
    \<and> messages d' =
        filter (\<lambda>m. \<not> (m_gamespace_id m = gamespace \<and> sql_in_int (m_message_id m)
                  (map (message_id \<circ> fst)
                     (filter (\<lambda>(a, v). v \<and> flags_contains REMOVE_DELIVERED (flags a)) calls))))
          (map (\<lambda>m. if m_gamespace_id m = gamespace \<and> sql_in_int (m_message_id m)
                        (map (message_id \<circ> fst)
                          (filter (\<lambda>(a, v). v \<and> \<not> flags_contains REMOVE_DELIVERED (flags a)) calls))
                    then m\<lparr>m_message_delivered := 1\<rparr> else m)
             (messages d))"
proof -
  from read_incoming_success [OF ok] obtain mk rm where
    r: "receive receiver (map stored_message (undelivered gamespace rcpt_class rcpt d)) rs [] [] []
             = (mk, rm, calls, rs')"
    and ms: "messages d' =
             filter (\<lambda>m. \<not> (m_gamespace_id m = gamespace \<and> sql_in_int (m_message_id m) rm))
               (map (\<lambda>m. if m_gamespace_id m = gamespace \<and> sql_in_int (m_message_id m) mk
                         then m\<lparr>m_message_delivered := 1\<rparr> else m)
                  (messages d))"
    by blast
  from receive_acc [OF r] ms show ?thesis by auto
qed

lemma listed_eq:
  "listed gamespace rcpt_class rcpt lim d =
     (if next_fault d = None \<and> 0 \<le> lim
      then map stored_message
             (take (nat lim) (order_by_message_time_desc (incoming gamespace rcpt_class rcpt d)))
      else [])"
  by (simp add: listed_def list_incoming_messages_def db_query_eq sql_limit_def incoming_def
        split: option.splits)

lemma insort_key_map_invariant:
  "(\<And>y. k (f y) = k y) \<Longrightarrow> insort_key k (f x) (map f ys) = map f (insort_key k x ys)"
  by (induction ys) simp_all

lemma sort_key_map_invariant:
  "(\<And>y. k (f y) = k y) \<Longrightarrow> sort_key k (map f xs) = map f (sort_key k xs)"
  by (induction xs) (simp_all add: insort_key_map_invariant)

lemma take_filter_map_mono:
  "x \<in> set (take n ys) \<Longrightarrow> P (f x) \<Longrightarrow> f x \<in> set (take n (filter P (map f ys)))"
proof (induction ys arbitrary: n)
  case Nil
  then show ?case by simp
next
  case (Cons y ys)
  then obtain k where k: "n = Suc k" by (cases n) auto
  show ?case
  proof (cases "x = y")
    case True
    with Cons.prems k show ?thesis by simp
  next
    case False
    with Cons.prems k have "x \<in> set (take k ys)" by simp
    from Cons.IH [OF this Cons.prems(2)]
    have i: "f x \<in> set (take k (filter P (map f ys)))" .
    have "set (take k (filter P (map f ys))) \<subseteq> set (take (Suc k) (filter P (map f ys)))"
      by (rule set_take_subset_set_take) simp
    with i k show ?thesis by auto
  qed
qed

lemma filter_filter_map_invariant:
  "(\<And>y. c (f y) = c y) \<Longrightarrow>
   filter c (filter keep (map f xs)) = filter keep (map f (filter c xs))"
  by (induction xs) simp_all

text \<open>The listing of a recipient after a run, from the listing before it.\<close>

lemma incoming_after:
  assumes "messages d' = filter (\<lambda>m. \<not> (m_gamespace_id m = gamespace \<and> R (m_message_id m)))
             (map (\<lambda>m. if m_gamespace_id m = gamespace \<and> M (m_message_id m)
                       then m\<lparr>m_message_delivered := 1\<rparr> else m) (messages d))"
  shows "order_by_message_time_desc (incoming gamespace rcpt_class rcpt d') =
           filter (\<lambda>m. \<not> (m_gamespace_id m = gamespace \<and> R (m_message_id m)))
             (map (\<lambda>m. if m_gamespace_id m = gamespace \<and> M (m_message_id m)
                       then m\<lparr>m_message_delivered := 1\<rparr> else m)
                (order_by_message_time_desc (incoming gamespace rcpt_class rcpt d)))"
proof -
  let ?f = "\<lambda>m. if m_gamespace_id m = gamespace \<and> M (m_message_id m)
                       then m\<lparr>m_message_delivered := 1\<rparr> else m"
  let ?keep = "\<lambda>m. \<not> (m_gamespace_id m = gamespace \<and> R (m_message_id m))"
  let ?c = "\<lambda>m. m_message_recipient_class m = rcpt_class \<and> m_message_recipient m = rcpt
                \<and> m_gamespace_id m = gamespace"
  have "incoming gamespace rcpt_class rcpt d' = filter ?keep (map ?f (filter ?c (messages d)))"
    unfolding incoming_def assms
    by (rule filter_filter_map_invariant) simp
  then have "order_by_message_time_desc (incoming gamespace rcpt_class rcpt d')
      = filter ?keep (sort_key (\<lambda>m. - m_message_time m) (map ?f (filter ?c (messages d))))"
    by (simp add: order_by_message_time_desc_def filter_sort)
  also have "sort_key (\<lambda>m. - m_message_time m) (map ?f (filter ?c (messages d)))
      = map ?f (sort_key (\<lambda>m. - m_message_time m) (filter ?c (messages d)))"
    by (rule sort_key_map_invariant) simp
  finally show ?thesis by (simp add: order_by_message_time_desc_def incoming_def)
qed

lemma in_filter_map:
  "f x = y \<Longrightarrow> P y \<Longrightarrow> x \<in> set xs \<Longrightarrow> y \<in> set (filter P (map f xs))"
  by auto

lemma not_in_filter:
  "(\<And>y. y \<in> set xs \<Longrightarrow> Q (f y) \<Longrightarrow> \<not> P (f y)) \<Longrightarrow>
   \<not> list_ex Q (filter P (map f xs))"
  by (auto simp add: list_ex_iff)

text \<open>
  C3. Let a call of \<^verbatim>\<open>read_incoming_messages\<close> complete successfully, in a gamespace
  whose message ids are unique. The receiver was called once for each undelivered message
  of the recipient, in table order, and for nothing else, so never for a message already
  delivered. Of these messages, one the receiver accepted is gone (no row of the
  gamespace has its id) when it carries the remove-on-delivery flag, and is stored with
  \<open>delivered = 1\<close> when it does not; one the receiver did not accept is stored
  unchanged and undelivered, is returned by a following \<^verbatim>\<open>list_incoming_messages\<close> whose
  limit does not cut the listing, and under any limit is returned after the call if it
  was returned before it (the storage answering that listing).
\<close>

theorem read_incoming_messages_delivery:
  assumes ok: "read_incoming_messages gamespace rcpt_class rcpt receiver rs d
                 = (Inr (), calls, rs', d')"
    and pk: "message_ids_unique gamespace d"
  shows "map fst calls = map stored_message (undelivered gamespace rcpt_class rcpt d)
    \<and> (\<forall>c \<in> set calls. delivered (fst c) = PInt 0)
    \<and> (\<forall>m \<in> set (undelivered gamespace rcpt_class rcpt d).
          if (stored_message m, True) \<in> set calls
          then (if remove_on_delivery m
                then \<not> list_ex (\<lambda>m'. m_gamespace_id m' = gamespace
                                       \<and> m_message_id m' = m_message_id m) (messages d')
                else m\<lparr>m_message_delivered := 1\<rparr> \<in> set (messages d'))
          else m \<in> set (messages d') \<and> m_message_delivered m = 0
             \<and> (\<forall>lim. next_fault d' = None
                      \<and> int (length (incoming gamespace rcpt_class rcpt d')) \<le> lim
                  \<longrightarrow> stored_message m \<in> set (listed gamespace rcpt_class rcpt lim d'))
             \<and> (\<forall>lim. next_fault d' = None
                      \<and> stored_message m \<in> set (listed gamespace rcpt_class rcpt lim d)
                  \<longrightarrow> stored_message m \<in> set (listed gamespace rcpt_class rcpt lim d')))"
proof -
  let ?N = "undelivered gamespace rcpt_class rcpt d"
  let ?rm = "map (message_id \<circ> fst)
               (filter (\<lambda>(a, v). v \<and> flags_contains REMOVE_DELIVERED (flags a)) calls)"
  let ?mk = "map (message_id \<circ> fst)
               (filter (\<lambda>(a, v). v \<and> \<not> flags_contains REMOVE_DELIVERED (flags a)) calls)"
  let ?keep = "\<lambda>m. \<not> (m_gamespace_id m = gamespace \<and> sql_in_int (m_message_id m) ?rm)"
  let ?f = "\<lambda>m. if m_gamespace_id m = gamespace \<and> sql_in_int (m_message_id m) ?mk
                 then m\<lparr>m_message_delivered := 1\<rparr> else m"
  from read_incoming_rows [OF ok]
  have cs: "map fst calls = map stored_message ?N"
    and ms: "messages d' = filter ?keep (map ?f (messages d))" by blast+
  have rm_iff: "sql_in_int (m_message_id m) ?rm
      \<longleftrightarrow> (stored_message m, True) \<in> set calls \<and> remove_on_delivery m" if "m \<in> set ?N" for m
    using in_ids_iff [OF pk cs that, of "\<lambda>fl. flags_contains REMOVE_DELIVERED fl"]
    by (simp add: remove_on_delivery_def)
  have mk_iff: "sql_in_int (m_message_id m) ?mk
      \<longleftrightarrow> (stored_message m, True) \<in> set calls \<and> \<not> remove_on_delivery m" if "m \<in> set ?N" for m
    using in_ids_iff [OF pk cs that, of "\<lambda>fl. \<not> flags_contains REMOVE_DELIVERED fl"]
    by (simp add: remove_on_delivery_def)
  have never: "\<forall>c \<in> set calls. delivered (fst c) = PInt 0"
  proof
    fix c assume "c \<in> set calls"
    then have "fst c \<in> set (map fst calls)" by simp
    with cs obtain m where "m \<in> set ?N" "fst c = stored_message m" by auto
    then show "delivered (fst c) = PInt 0" by (simp add: undelivered_set)
  qed
  have each: "if (stored_message m, True) \<in> set calls
          then (if remove_on_delivery m
                then \<not> list_ex (\<lambda>m'. m_gamespace_id m' = gamespace
                                       \<and> m_message_id m' = m_message_id m) (messages d')
                else m\<lparr>m_message_delivered := 1\<rparr> \<in> set (messages d'))
          else m \<in> set (messages d') \<and> m_message_delivered m = 0
             \<and> (\<forall>lim. next_fault d' = None
                      \<and> int (length (incoming gamespace rcpt_class rcpt d')) \<le> lim
                  \<longrightarrow> stored_message m \<in> set (listed gamespace rcpt_class rcpt lim d'))
             \<and> (\<forall>lim. next_fault d' = None
                      \<and> stored_message m \<in> set (listed gamespace rcpt_class rcpt lim d)
                  \<longrightarrow> stored_message m \<in> set (listed gamespace rcpt_class rcpt lim d'))"
    if mN: "m \<in> set ?N" for m
  proof -
    from mN have md: "m \<in> set (messages d)" and g: "m_gamespace_id m = gamespace"
      and cl: "m_message_recipient_class m = rcpt_class" "m_message_recipient m = rcpt"
      and und: "m_message_delivered m = 0"
      by (simp_all add: undelivered_set)
    show ?thesis
    proof (cases "(stored_message m, True) \<in> set calls")
      case True
      show ?thesis
      proof (cases "remove_on_delivery m")
        case r: True
        from True r mN have "sql_in_int (m_message_id m) ?rm" by (simp add: rm_iff)
        then have "\<not> list_ex (\<lambda>m'. m_gamespace_id m' = gamespace
                                       \<and> m_message_id m' = m_message_id m) (messages d')"
          unfolding ms by (intro not_in_filter) (simp split: if_splits)
        with True r show ?thesis by simp
      next
        case r: False
        from True r mN have a: "sql_in_int (m_message_id m) ?mk" by (simp add: mk_iff)
        from r mN have b: "\<not> sql_in_int (m_message_id m) ?rm" by (simp add: rm_iff)
        from a g have "?f m = m\<lparr>m_message_delivered := 1\<rparr>" by simp
        moreover from b have "?keep (m\<lparr>m_message_delivered := 1\<rparr>)" by simp
        ultimately have "m\<lparr>m_message_delivered := 1\<rparr> \<in> set (messages d')"
          unfolding ms using md by (rule in_filter_map)
        with True r show ?thesis by simp
      qed
    next
      case False
      from False mN have a: "\<not> sql_in_int (m_message_id m) ?mk" by (simp add: mk_iff)
      from False mN have b: "\<not> sql_in_int (m_message_id m) ?rm" by (simp add: rm_iff)
      from a have fm: "?f m = m" by simp
      from b have km: "?keep (?f m)" unfolding fm by simp
      have "?keep m" using km unfolding fm .
      with fm have in_after: "m \<in> set (messages d')"
        unfolding ms using md by (rule in_filter_map)
      have sorted_after: "order_by_message_time_desc (incoming gamespace rcpt_class rcpt d')
          = filter ?keep (map ?f (order_by_message_time_desc (incoming gamespace rcpt_class rcpt d)))"
        by (rule incoming_after [OF ms])
      have A: "stored_message m \<in> set (listed gamespace rcpt_class rcpt lim d')"
        if "next_fault d' = None \<and> int (length (incoming gamespace rcpt_class rcpt d')) \<le> lim" for lim
      proof -
        from that have l: "length (incoming gamespace rcpt_class rcpt d') \<le> nat lim" "0 \<le> lim"
          by linarith+
        have "m \<in> set (incoming gamespace rcpt_class rcpt d')"
          using in_after g cl by (simp add: incoming_def)
        then have "m \<in> set (take (nat lim)
                     (order_by_message_time_desc (incoming gamespace rcpt_class rcpt d')))"
          using l(1) by (simp add: order_by_message_time_desc_def)
        with that l(2) show ?thesis by (simp add: listed_eq)
      qed
      have B: "stored_message m \<in> set (listed gamespace rcpt_class rcpt lim d')"
        if "next_fault d' = None \<and> stored_message m \<in> set (listed gamespace rcpt_class rcpt lim d)" for lim
      proof -
        from that have nf: "next_fault d' = None"
          and li: "stored_message m \<in> set (listed gamespace rcpt_class rcpt lim d)" by simp_all
        from li have pos: "0 \<le> lim" by (auto simp add: listed_eq split: if_splits)
        from li obtain n where
          n: "n \<in> set (take (nat lim)
                 (order_by_message_time_desc (incoming gamespace rcpt_class rcpt d)))"
             "stored_message n = stored_message m"
          by (auto simp add: listed_eq split: if_splits)
        from n(1) have "n \<in> set (order_by_message_time_desc (incoming gamespace rcpt_class rcpt d))"
          by (rule in_set_takeD)
        then have nd: "n \<in> set (messages d)" "m_gamespace_id n = gamespace"
          by (simp_all add: order_by_message_time_desc_def incoming_def)
        from n(2) have "message_id (stored_message n) = message_id (stored_message m)" by simp
        then have "m_message_id n = m_message_id m" by simp
        with pk nd md g have "n = m" by (auto intro: unique_id)
        with n(1) have "m \<in> set (take (nat lim)
                 (order_by_message_time_desc (incoming gamespace rcpt_class rcpt d)))" by simp
        from take_filter_map_mono [OF this, of ?keep ?f] km
        have "m \<in> set (take (nat lim)
                 (order_by_message_time_desc (incoming gamespace rcpt_class rcpt d')))"
          unfolding sorted_after fm by simp
        with nf pos show ?thesis by (simp add: listed_eq)
      qed
      from False in_after und A B show ?thesis by simp
    qed
  qed
  from cs never each show ?thesis by blast
qed

theorem read_incoming_messages_delivery_witness:
  "read_incoming_messages 1 ''user'' ''5'' picky 0 inbox_db
     = (Inr (),
        [(stored_message inbox_21, True), (stored_message inbox_22, True),
         (stored_message inbox_23, False)],
        3, inbox_after)
   \<and> message_ids_unique 1 inbox_db
   \<and> \<not> list_ex (\<lambda>m'. m_gamespace_id m' = 1 \<and> m_message_id m' = 21) (messages inbox_after)
   \<and> inbox_22\<lparr>m_message_delivered := 1\<rparr> \<in> set (messages inbox_after)
   \<and> inbox_23 \<in> set (messages inbox_after)
   \<and> stored_message inbox_23 \<in> set (listed 1 ''user'' ''5'' 100 inbox_after)"
proof -
  let ?calls = "[(stored_message inbox_21, True), (stored_message inbox_22, True),
         (stored_message inbox_23, False)]"
  have run: "read_incoming_messages 1 ''user'' ''5'' picky 0 inbox_db
     = (Inr (), ?calls, 3, inbox_after)"
    by (simp add: read_incoming_messages_def db_acquire_eq db_query_eq db_execute_eq db_commit_eq
        select_undelivered_def update_delivered_def delete_from_messages_def
        example_defs stored_message_def flags_contains_def REMOVE_DELIVERED_def sql_in_int_def
        lower_def lower_char_def)
  have pk: "message_ids_unique 1 inbox_db"
    by (simp add: message_ids_unique_def example_defs)
  have und: "undelivered 1 ''user'' ''5'' inbox_db = [inbox_21, inbox_22, inbox_23]"
    by (simp add: undelivered_def example_defs)
  have ids: "m_message_id inbox_21 = 21" "m_message_id inbox_22 = 22" "m_message_id inbox_23 = 23"
    by (simp_all add: example_defs)
  have flag: "remove_on_delivery inbox_21" "\<not> remove_on_delivery inbox_22"
    by (simp_all add: remove_on_delivery_def stored_message_def flags_contains_def
          REMOVE_DELIVERED_def example_defs lower_def lower_char_def)
  have acc: "(stored_message inbox_21, True) \<in> set ?calls"
    "(stored_message inbox_22, True) \<in> set ?calls"
    by simp_all
  have rej: "(stored_message inbox_23, True) \<notin> set ?calls"
    by (simp add: stored_message_def example_defs)
  have nf: "next_fault inbox_after = None"
    by (simp add: example_defs)
  have len: "int (length (incoming 1 ''user'' ''5'' inbox_after)) \<le> 100"
    by (simp add: incoming_def example_defs)
  from read_incoming_messages_delivery [OF run pk]
  have each: "\<forall>m \<in> set [inbox_21, inbox_22, inbox_23].
          if (stored_message m, True) \<in> set ?calls
          then (if remove_on_delivery m
                then \<not> list_ex (\<lambda>m'. m_gamespace_id m' = 1
                                       \<and> m_message_id m' = m_message_id m) (messages inbox_after)
                else m\<lparr>m_message_delivered := 1\<rparr> \<in> set (messages inbox_after))
          else m \<in> set (messages inbox_after) \<and> m_message_delivered m = 0
             \<and> (\<forall>lim. next_fault inbox_after = None
                      \<and> int (length (incoming 1 ''user'' ''5'' inbox_after)) \<le> lim
                  \<longrightarrow> stored_message m \<in> set (listed 1 ''user'' ''5'' lim inbox_after))
             \<and> (\<forall>lim. next_fault inbox_after = None
                      \<and> stored_message m \<in> set (listed 1 ''user'' ''5'' lim inbox_db)
                  \<longrightarrow> stored_message m \<in> set (listed 1 ''user'' ''5'' lim inbox_after))"
    unfolding und by blast
  have i21: "inbox_21 \<in> set [inbox_21, inbox_22, inbox_23]" by simp
  have i22: "inbox_22 \<in> set [inbox_21, inbox_22, inbox_23]" by simp
  have i23: "inbox_23 \<in> set [inbox_21, inbox_22, inbox_23]" by simp
  from bspec [OF each i21]
  have c1: "\<not> list_ex (\<lambda>m'. m_gamespace_id m' = 1 \<and> m_message_id m' = 21) (messages inbox_after)"
    unfolding if_P [OF acc(1)] if_P [OF flag(1)] ids(1) .
  from bspec [OF each i22]
  have c2: "inbox_22\<lparr>m_message_delivered := 1\<rparr> \<in> set (messages inbox_after)"
    unfolding if_P [OF acc(2)] if_not_P [OF flag(2)] .
  from bspec [OF each i23]
  have c3: "inbox_23 \<in> set (messages inbox_after) \<and> m_message_delivered inbox_23 = 0
     \<and> (\<forall>lim. next_fault inbox_after = None
                      \<and> int (length (incoming 1 ''user'' ''5'' inbox_after)) \<le> lim
                  \<longrightarrow> stored_message inbox_23 \<in> set (listed 1 ''user'' ''5'' lim inbox_after))
     \<and> (\<forall>lim. next_fault inbox_after = None
                      \<and> stored_message inbox_23 \<in> set (listed 1 ''user'' ''5'' lim inbox_db)
                  \<longrightarrow> stored_message inbox_23 \<in> set (listed 1 ''user'' ''5'' lim inbox_after))"
    unfolding if_not_P [OF rej] .
  then have c3a: "inbox_23 \<in> set (messages inbox_after)"
    and c3b: "\<forall>lim. next_fault inbox_after = None
                      \<and> int (length (incoming 1 ''user'' ''5'' inbox_after)) \<le> lim
                  \<longrightarrow> stored_message inbox_23 \<in> set (listed 1 ''user'' ''5'' lim inbox_after)"
    by (rule conjunct1, elim conjE)
  from spec [OF c3b, of 100] nf len
  have c4: "stored_message inbox_23 \<in> set (listed 1 ''user'' ''5'' 100 inbox_after)"
    by (rule_tac mp) (assumption, rule conjI)
  show ?thesis
    by (intro conjI) (rule run, rule pk, rule c1, rule c2, rule c3a, rule c4)
qed

section \<open>The feed of an account\<close>

text \<open>
  What \<^verbatim>\<open>list_messages_account\<close> returns within its bounds, the storage answering: the
  window of a list that holds each message of the feed once, by descending message id;
  the ids themselves are distinct when the gamespace's message ids are unique. The group
  branch of the feed compares the recipient with the group key, whatever the cluster of
  the participation, and takes groups and participations of any gamespace.
\<close>

lemma account_group_keys_iff:
  "(m_message_recipient_class m, m_message_recipient m) \<in> set (account_group_keys account_id d m)
     \<longleftrightarrow> joined_group_key account_id d m"
  by (auto simp add: account_group_keys_def joined_group_key_def list_ex_iff)

lemma feed_set:
  "set (select_group_messages gamespace account_id d
        @ select_user_messages gamespace account_id d
        @ select_sent_messages gamespace account_id d)
     = {m \<in> set (messages d). in_feed gamespace account_id d m}"
  by (auto simp add: select_group_messages_def select_user_messages_def
        select_sent_messages_def in_feed_def account_group_keys_iff)

lemma distinct_ids_of_rows:
  assumes "message_ids_unique gamespace d" "distinct rows"
    and "set rows \<subseteq> {m \<in> set (messages d). m_gamespace_id m = gamespace}"
  shows "distinct (map m_message_id rows)"
proof -
  have "inj_on m_message_id (set (filter (\<lambda>m. m_gamespace_id m = gamespace) (messages d)))"
    using assms(1) by (simp add: message_ids_unique_def distinct_map)
  then have "inj_on m_message_id (set rows)"
    by (rule inj_on_subset) (use assms(3) in auto)
  with assms(2) show ?thesis by (simp add: distinct_map)
qed

lemma list_messages_account_feed:
  assumes "1 \<le> lim" "lim \<le> 10000" "0 \<le> off" "off \<le> 10000" "next_fault d = None"
  shows "\<exists>rows. fst (list_messages_account gamespace account_id lim off d)
                   = Inr (map stored_message (take (nat lim) (drop (nat off) rows)))
           \<and> set rows = {m \<in> set (messages d). in_feed gamespace account_id d m}
           \<and> distinct rows
           \<and> sorted (map (\<lambda>m. - m_message_id m) rows)
           \<and> (message_ids_unique gamespace d \<longrightarrow> distinct (map m_message_id rows))"
proof -
  let ?u = "select_group_messages gamespace account_id d
        @ select_user_messages gamespace account_id d
        @ select_sent_messages gamespace account_id d"
  let ?rows = "order_by_message_id_desc (remdups ?u)"
  have sel: "select_account_messages gamespace account_id lim off (after_call d)
      = Some (take (nat lim) (drop (nat off) ?rows))"
    using assms(1,3)
    by (simp add: select_account_messages_def sql_limit_def select_group_messages_def
          select_user_messages_def select_sent_messages_def account_group_keys_def)
  have r: "fst (list_messages_account gamespace account_id lim off d)
                   = Inr (map stored_message (take (nat lim) (drop (nat off) ?rows)))"
    using assms by (simp add: list_messages_account_def db_query_eq sel)
  have s: "set ?rows = {m \<in> set (messages d). in_feed gamespace account_id d m}"
    by (simp only: order_by_message_id_desc_def set_sort set_remdups feed_set)
  have dr: "distinct ?rows"
    by (simp add: order_by_message_id_desc_def)
  have so: "sorted (map (\<lambda>m. - m_message_id m) ?rows)"
    by (simp add: order_by_message_id_desc_def)
  have di: "distinct (map m_message_id ?rows)" if "message_ids_unique gamespace d"
    by (rule distinct_ids_of_rows [OF that dr]) (auto simp add: s in_feed_def)
  from r s dr so di show ?thesis by blast
qed

text \<open>
  C2. The claim fails on the code. In the example database account 5 participates in the
  clustered group "guild" in cluster 7, so the recipient key of its participation is
  "guild-7", and message 10 of the gamespace is addressed to "guild-7". The feed of
  account 5 holds message 13, addressed to the account as a user, and message 12,
  addressed to the bare group key; message 10 is not in it.
\<close>

theorem list_messages_account_misses_cluster_messages:
  "fst (list_messages_account 1 5 100 0 example_db)
     = Inr [stored_message (example_message 1 13 ''user'' ''5'' 9 0 []),
            stored_message (example_message 1 12 ''clan'' ''guild'' 9 0 [])]
   \<and> map_sum id calculate_recipient (GroupParticipationAdapter (participant_dict member_row))
     = Inr ''guild-7''
   \<and> example_message 1 10 ''clan'' ''guild-7'' 9 0 [] \<in> set (messages example_db)"
proof -
  have n: "sql_number ''5'' = (5, 0)"
    by (simp add: sql_number_def read_sign_def read_fraction_def read_exponent_def
          number_of_def is_digit_def is_space_def digit_val_def)
  show ?thesis
    by (simp add: list_messages_account_def db_query_eq select_account_messages_def
          select_group_messages_def select_user_messages_def select_sent_messages_def
          account_group_keys_def sql_limit_def order_by_message_id_desc_def CLASS_USER_def
          GroupParticipationAdapter_def calculate_recipient_def n
          str_int_def digits.simps example_defs)
qed

section \<open>The rows of other gamespaces\<close>

text \<open>
  The statements of \<^verbatim>\<open>delete_messages_like\<close>, of \<^verbatim>\<open>accounts_deleted\<close> restricted to a
  gamespace and of \<^verbatim>\<open>read_incoming_messages\<close> all carry the gamespace in their conditions.
\<close>

lemma others_after_call [simp]: "others gamespace (after_call d) = others gamespace d"
  by (simp add: others_def)

lemma others_rollback [simp]: "others gamespace (rollback d0 d) = others gamespace d0"
  by (simp add: others_def rollback_def)

lemma filter_filter_weaken:
  "(\<And>x. P x \<Longrightarrow> Q x) \<Longrightarrow> filter P (filter Q xs) = filter P xs"
  by (induction xs) auto

lemma filter_map_untouched:
  "(\<And>x. P (f x) = P x) \<Longrightarrow> (\<And>x. P x \<Longrightarrow> f x = x) \<Longrightarrow> filter P (map f xs) = filter P xs"
  by (induction xs) auto

lemma delete_messages_like_others:
  "others gamespace (snd (delete_messages_like gamespace rcpt_class recipient_like d))
     = others gamespace d"
proof (cases "next_fault d")
  case None
  have "filter (\<lambda>m. m_gamespace_id m \<noteq> gamespace)
          (filter (\<lambda>m. \<not> (sql_like rcpt_class (m_message_recipient_class m)
                             \<and> m_message_recipient m = recipient_like
                             \<and> m_gamespace_id m = gamespace)) (messages d))
        = filter (\<lambda>m. m_gamespace_id m \<noteq> gamespace) (messages d)"
    by (rule filter_filter_weaken) simp
  with None show ?thesis
    by (simp add: delete_messages_like_eq others_def)
next
  case (Some msg)
  then show ?thesis by (simp add: delete_messages_like_eq)
qed

lemma accounts_deleted_others:
  "others gamespace (snd (accounts_deleted gamespace accounts True d)) = others gamespace d"
proof (cases "next_fault d = None \<and> accounts \<noteq> []")
  case True
  have "filter (\<lambda>p. p_gamespace_id p \<noteq> gamespace)
          (filter (\<lambda>p. \<not> (p_gamespace_id p = gamespace \<and> p_participation_account p \<in> set accounts))
             (group_participants d))
        = filter (\<lambda>p. p_gamespace_id p \<noteq> gamespace) (group_participants d)"
    by (rule filter_filter_weaken) simp
  with True show ?thesis
    by (simp add: accounts_deleted_def db_execute_eq delete_participants_of_def
          delete_from_participants_def others_def)
next
  case False
  then show ?thesis
    by (auto simp add: accounts_deleted_def db_execute_eq delete_participants_of_def
          split: option.splits)
qed

lemma db_acquire_others: "db_acquire d = (r, d') \<Longrightarrow> others gamespace d' = others gamespace d"
  by (auto simp add: db_acquire_eq split: option.splits)

lemma db_commit_others: "db_commit d = (r, d') \<Longrightarrow> others gamespace d' = others gamespace d"
  by (auto simp add: db_commit_eq split: option.splits)

lemma db_query_others: "db_query sel d = (r, d') \<Longrightarrow> others gamespace d' = others gamespace d"
  by (auto simp add: db_query_eq split: option.splits)

lemma update_delivered_others:
  "db_execute (update_delivered gamespace ids) d = (r, d') \<Longrightarrow>
   others gamespace d' = others gamespace d"
proof -
  have "filter (\<lambda>m. m_gamespace_id m \<noteq> gamespace)
          (map (\<lambda>m. if m_gamespace_id m = gamespace \<and> sql_in_int (m_message_id m) ids
                    then m\<lparr>m_message_delivered := 1\<rparr> else m) (messages d))
        = filter (\<lambda>m. m_gamespace_id m \<noteq> gamespace) (messages d)"
    by (rule filter_map_untouched) simp_all
  then show "db_execute (update_delivered gamespace ids) d = (r, d') \<Longrightarrow>
   others gamespace d' = others gamespace d"
    by (auto simp add: db_execute_eq update_delivered_def others_def split: option.splits)
qed

lemma delete_scoped_others:
  "db_execute (delete_from_messages (\<lambda>m. m_gamespace_id m = gamespace \<and> R m)) d = (r, d') \<Longrightarrow>
   others gamespace d' = others gamespace d"
proof -
  have "filter (\<lambda>m. m_gamespace_id m \<noteq> gamespace)
          (filter (\<lambda>m. \<not> (m_gamespace_id m = gamespace \<and> R m)) (messages d))
        = filter (\<lambda>m. m_gamespace_id m \<noteq> gamespace) (messages d)"
    by (rule filter_filter_weaken) simp
  then show "db_execute (delete_from_messages (\<lambda>m. m_gamespace_id m = gamespace \<and> R m)) d = (r, d') \<Longrightarrow>
   others gamespace d' = others gamespace d"
    by (auto simp add: db_execute_eq delete_from_messages_def others_def split: option.splits)
qed

lemma read_incoming_messages_others:
  assumes "read_incoming_messages gamespace rcpt_class rcpt receiver rs d = (r, calls, rs', d')"
  shows "others gamespace d' = others gamespace d"
proof -
  obtain r1 d1 where a: "db_acquire d = (r1, d1)" by (cases "db_acquire d")
  obtain r2 d2 where q: "db_query (select_undelivered gamespace rcpt_class rcpt) d1 = (r2, d2)"
    by (cases "db_query (select_undelivered gamespace rcpt_class rcpt) d1")
  note o1 = db_acquire_others [OF a, of gamespace]
  note o2 = db_query_others [OF q, of gamespace]
  show ?thesis
  proof (cases r1)
    case Inl
    with assms a o1 show ?thesis by (auto simp add: read_incoming_messages_def)
  next
    case r1: Inr
    show ?thesis
    proof (cases r2)
      case Inl
      with assms a q r1 show ?thesis by (auto simp add: read_incoming_messages_def)
    next
      case r2: (Inr rows)
      obtain mk rm cs rs1 where
        rc: "receive receiver (map stored_message rows) rs [] [] [] = (mk, rm, cs, rs1)"
        by (metis prod_cases4)
      obtain r3 d3 where u: "(if mk \<noteq> []
            then db_execute (update_delivered gamespace mk) d2 else (Inr 0, d2)) = (r3, d3)"
        by (metis surj_pair)
      have o3: "others gamespace d3 = others gamespace d2"
        using u by (auto split: if_splits dest: update_delivered_others)
      obtain r4 d4 where x: "(if rm \<noteq> []
            then db_execute
                   (delete_from_messages
                      (\<lambda>m. m_gamespace_id m = gamespace \<and> sql_in_int (m_message_id m) rm)) d3
            else (Inr 0, d3)) = (r4, d4)"
        by (metis surj_pair)
      have o4: "others gamespace d4 = others gamespace d3"
        using x by (auto split: if_splits dest: delete_scoped_others)
      obtain r5 d5 where c: "db_commit d4 = (r5, d5)" by (cases "db_commit d4")
      note o5 = db_commit_others [OF c, of gamespace]
      have "d' = d5 \<or> others gamespace d' = others gamespace d"
        using assms a q r1 r2 rc u x c
        by (auto simp add: read_incoming_messages_def split: sum.splits)
      with o1 o2 o3 o4 o5 show ?thesis by auto
    qed
  qed
qed

lemma read_incoming_messages_calls:
  assumes "read_incoming_messages gamespace rcpt_class rcpt receiver rs d = (r, calls, rs', d')"
  shows "\<forall>c \<in> set calls. \<exists>m \<in> set (messages d).
           m_gamespace_id m = gamespace \<and> fst c = stored_message m"
proof -
  obtain mk rm cs rs1 where
    rc: "receive receiver (map stored_message (undelivered gamespace rcpt_class rcpt d)) rs [] [] []
          = (mk, rm, cs, rs1)"
    by (metis prod_cases4)
  from receive_acc [OF rc] have c: "map fst cs = map stored_message (undelivered gamespace rcpt_class rcpt d)"
    by auto
  have "calls = [] \<or> calls = cs"
    using assms rc
    by (auto simp add: read_incoming_messages_def db_acquire_eq db_query_eq db_execute_eq
          db_commit_eq select_undelivered_def undelivered_def update_delivered_def
          delete_from_messages_def
        split: option.splits if_splits)
  moreover have "\<forall>c \<in> set cs. \<exists>m \<in> set (messages d).
           m_gamespace_id m = gamespace \<and> fst c = stored_message m"
  proof
    fix x assume "x \<in> set cs"
    then have "fst x \<in> set (map fst cs)" by simp
    with c obtain m where "m \<in> set (undelivered gamespace rcpt_class rcpt d)" "fst x = stored_message m"
      by auto
    then show "\<exists>m \<in> set (messages d). m_gamespace_id m = gamespace \<and> fst x = stored_message m"
      by (auto simp add: undelivered_set)
  qed
  ultimately show ?thesis by auto
qed

text \<open>
  The three operations leave every row of another gamespace as it was, whether they
  succeed or fail, and \<^verbatim>\<open>read_incoming_messages\<close> hands the receiver messages of its own
  gamespace only.
\<close>

lemma tenant_isolation_of_cited_operations:
  "others gamespace (snd (delete_messages_like gamespace rcpt_class recipient_like d))
     = others gamespace d
   \<and> others gamespace (snd (accounts_deleted gamespace accounts True d)) = others gamespace d
   \<and> others gamespace
         (snd (snd (snd (read_incoming_messages gamespace rcpt_class rcpt receiver rs d))))
     = others gamespace d
   \<and> (\<forall>c \<in> set (fst (snd (read_incoming_messages gamespace rcpt_class rcpt receiver rs d))).
        \<exists>m \<in> set (messages d). m_gamespace_id m = gamespace \<and> fst c = stored_message m)"
proof -
  obtain r calls rs' d' where
    e: "read_incoming_messages gamespace rcpt_class rcpt receiver rs d = (r, calls, rs', d')"
    by (metis prod_cases4)
  from read_incoming_messages_others [OF e] read_incoming_messages_calls [OF e] e
  show ?thesis
    by (simp add: delete_messages_like_others accounts_deleted_others)
qed

text \<open>
  C10. The claim fails on the code for \<^verbatim>\<open>list_groups_account_participates\<close>, whose join of
  participations and groups compares the group ids and not the gamespaces. Where
  gamespaces 1 and 2 each hold a group with id 3 and account 5 participates in the one
  of gamespace 1, the call for gamespace 1 returns the group "secret" of gamespace 2
  beside the account's own; \<^verbatim>\<open>find_group_with_participation\<close>, whose join compares the
  gamespaces too, does not find "secret" from gamespace 1. The same row is returned
  where the only group, "secret", belongs to gamespace 2 and account 5 was joined to it
  through \<^verbatim>\<open>join_group\<close> called for gamespace 1.
\<close>

theorem list_groups_account_participates_leaks:
  "fst (list_groups_account_participates 1 5 shared_id_db)
     = Inr [\<lparr> participation_id = ''1'', group_id = ''3'', group_class = ''clan'',
               group_key = ''guild'', cluster_id = 7, account = PInt 5,
               role = PStr ''member'', key = ''guild'', clustered = True,
               cluster_size = PInt 1000 \<rparr>,
            \<lparr> participation_id = ''1'', group_id = ''3'', group_class = ''clan'',
               group_key = ''secret'', cluster_id = 7, account = PInt 5,
               role = PStr ''member'', key = ''secret'', clustered = False,
               cluster_size = PInt 1000 \<rparr>]
   \<and> filter (\<lambda>g. g_group_key g = ''secret'') (groups shared_id_db) = [secret_row]
   \<and> g_gamespace_id secret_row = 2
   \<and> fst (find_group_with_participation 1 ''clan'' ''secret'' 5 shared_id_db) = Inl GroupNotFound
   \<and> fst (list_groups_account_participates 1 5
        (db (snd (join_group example_cluster 1 (GroupAdapter (group_dict secret_row)) 5 ''member''
                    None False foreign_world))))
     = Inr [\<lparr> participation_id = ''1'', group_id = ''3'', group_class = ''clan'',
               group_key = ''secret'', cluster_id = 0, account = PInt 5,
               role = PStr ''member'', key = ''secret'', clustered = False,
               cluster_size = PInt 1000 \<rparr>]"
  by (simp add: list_groups_account_participates_def select_groups_account_participates_def
        find_group_with_participation_def select_group_with_participation_def
        join_group_def insert_participant_def notify_given_def
        db_query_eq db_get_eq db_execute_eq
        GroupAndParticipationAdapter_def GroupParticipationAdapter_def
        GroupParticipationAdapter.extend_def str_int_def digits.simps parse_int_def
        example_defs)

end
